theory Spec2Isabelle
  imports Complex_Main
begin

section \<open>Python values\<close>

text \<open>
  The planner is a Python program. Its values are the ones \<open>json.loads\<close> can produce and
  \<open>json.dumps\<close> can print. A \<open>dict\<close> is an association list in insertion order. A
  Python \<open>float\<close> is a binary64 number, written here as the real number it equals. Each
  calculator is given twice: in exact real arithmetic, which is what its formulas mean,
  and in binary64 arithmetic, operation by operation, which is what the interpreter
  computes, with \<open>OverflowError\<close> and \<open>ZeroDivisionError\<close> among the outcomes.
  Infinities and NaN as values are outside both.
\<close>

datatype pyval =
    PNone
  | PBool bool
  | PInt int
  | PFloat real
  | PStr string
  | PList "pyval list"
  | PDict "(string \<times> pyval) list"

type_synonym pydict = "(string \<times> pyval) list"

definition keys :: "pydict \<Rightarrow> string list" where
  "keys d = map fst d"

text \<open>\<open>d.get(k)\<close>, and the number stored under a key.\<close>

definition dict_get :: "pydict \<Rightarrow> string \<Rightarrow> pyval option" where
  "dict_get d k = map_of d k"

definition num_field :: "pydict \<Rightarrow> string \<Rightarrow> real option" where
  "num_field d k =
     (case map_of d k of
        Some (PFloat x) \<Rightarrow> Some x
      | Some (PInt i) \<Rightarrow> Some (of_int i)
      | _ \<Rightarrow> None)"

section \<open>Rounding\<close>

text \<open>
  Python's \<open>round(x, 2)\<close> rounds to the nearest multiple of 0.01 and, on a tie, to the
  one whose last digit is even.
\<close>

definition round_half_even :: "real \<Rightarrow> int" where
  "round_half_even x =
     (let f = \<lfloor>x\<rfloor>; d = x - of_int f
      in if d < 1 / 2 then f
         else if 1 / 2 < d then f + 1
         else if even f then f else f + 1)"

definition round2 :: "real \<Rightarrow> real" where
  "round2 x = of_int (round_half_even (x * 100)) / 100"

text \<open>A number with at most two decimal places.\<close>

definition is_2dp :: "real \<Rightarrow> bool" where
  "is_2dp x = (of_int \<lfloor>x * 100\<rfloor> = x * 100)"

section \<open>The calculators in exact arithmetic\<close>

text \<open>
  \<open>calculate_sip_projection\<close> (lines 14--46), every operation exact. \<open>pow(1 + r, n)\<close>
  has an integer exponent \<open>n = years * 12 > 0\<close> on this path.
\<close>

definition calculate_sip_projection :: "real \<Rightarrow> real \<Rightarrow> int \<Rightarrow> pydict" where
  "calculate_sip_projection monthly_investment expected_annual_return_pct years =
     (if years \<le> 0 then [(''error'', PStr ''Years must be > 0'')]
      else
        let r = (expected_annual_return_pct / 100) / 12;
            n = years * 12;
            future_value =
              (if r = 0 then monthly_investment * of_int n
               else monthly_investment * (((1 + r) ^ nat n - 1) / r));
            total_invested = monthly_investment * of_int n;
            gain = future_value - total_invested
        in [(''monthly_investment'', PFloat monthly_investment),
            (''expected_annual_return_pct'', PFloat expected_annual_return_pct),
            (''years'', PInt years),
            (''total_invested'', PFloat (round2 total_invested)),
            (''projected_value'', PFloat (round2 future_value)),
            (''projected_gain'', PFloat (round2 gain))])"

text \<open>\<open>plan_retirement_goal\<close> (lines 49--111), every operation exact.\<close>

definition plan_retirement_goal ::
  "int \<Rightarrow> int \<Rightarrow> real \<Rightarrow> real \<Rightarrow> real \<Rightarrow> real \<Rightarrow> pydict" where
  "plan_retirement_goal current_age retirement_age monthly_expense_today inflation_pct
       expected_return_pct_during_accumulation current_corpus =
     (let years_to_retirement = retirement_age - current_age in
      if years_to_retirement \<le> 0
      then [(''error'', PStr ''Retirement age must be greater than current age.'')]
      else
        let infl = inflation_pct / 100;
            target_monthly_at_retirement =
              monthly_expense_today * (1 + infl) ^ nat years_to_retirement;
            annual_exp_at_retirement = target_monthly_at_retirement * 12;
            safe_withdrawal_rate = 4 / 100;
            required_corpus = annual_exp_at_retirement / safe_withdrawal_rate;
            goal_amount = max (required_corpus - current_corpus) 0;
            r = (expected_return_pct_during_accumulation / 100) / 12;
            n = years_to_retirement * 12
        in if n \<le> 0 \<or> r \<le> 0
           then [(''error'', PStr ''Invalid inputs for SIP calculation.''),
                 (''required_corpus'', PFloat (round2 required_corpus))]
           else
             let denom = (1 + r) ^ nat n - 1 in
             if denom = 0
             then [(''error'', PStr ''Mathematical error in SIP calculation.''),
                   (''required_corpus'', PFloat (round2 required_corpus))]
             else
               let required_monthly_sip = goal_amount * r / denom
               in [(''current_age'', PInt current_age),
                   (''retirement_age'', PInt retirement_age),
                   (''years_to_retirement'', PInt years_to_retirement),
                   (''monthly_expense_today'', PFloat (round2 monthly_expense_today)),
                   (''inflation_pct'', PFloat inflation_pct),
                   (''expected_return_pct_during_accumulation'',
                      PFloat expected_return_pct_during_accumulation),
                   (''current_corpus'', PFloat (round2 current_corpus)),
                   (''target_monthly_at_retirement'',
                      PFloat (round2 target_monthly_at_retirement)),
                   (''required_corpus'', PFloat (round2 required_corpus)),
                   (''required_monthly_sip'', PFloat (round2 required_monthly_sip))])"

section \<open>Binary64 arithmetic\<close>

text \<open>
  Python computes with IEEE 754 binary64 numbers. \<open>b64 x\<close> is the binary64 number nearest
  to the real \<open>x\<close> (ties to the even significand; 53 significant bits, subnormal numbers
  below \<open>2^-1022\<close>), before any range check: a result of magnitude \<open>2^1024\<close> or more is
  an overflow.
\<close>

definition b64 :: "real \<Rightarrow> real" where
  "b64 x =
     (if x = 0 then 0
      else
        let e = max \<lfloor>log 2 \<bar>x\<bar>\<rfloor> (- 1022);
            u = 2 powi (e - 52)
        in of_int (round_half_even (x / u)) * u)"

definition finite64 :: "real \<Rightarrow> bool" where
  "finite64 y = (\<bar>y\<bar> < 2 ^ 1024)"

text \<open>
  A run of a calculator in binary64 returns a value, raises an exception, or produces an
  infinity in an intermediate result. The model does not follow a run past that point
  (Python goes on computing with the infinity, and may produce a NaN): \<open>NonFinite\<close> says
  so.
\<close>

datatype arith_error = OverflowError | ZeroDivisionError

datatype 'a run = Returns 'a | Raises arith_error | NonFinite

definition then_run :: "'a run \<Rightarrow> ('a \<Rightarrow> 'b run) \<Rightarrow> 'b run" where
  "then_run m f = (case m of Returns x \<Rightarrow> f x | Raises e \<Rightarrow> Raises e | NonFinite \<Rightarrow> NonFinite)"

text \<open>
  The float operators \<open>+\<close>, \<open>-\<close>, \<open>*\<close> round their exact result and overflow to an
  infinity; \<open>/\<close> also raises \<open>ZeroDivisionError\<close> on a zero divisor.
\<close>

definition fl :: "real \<Rightarrow> real run" where
  "fl z = (if finite64 (b64 z) then Returns (b64 z) else NonFinite)"

definition fadd :: "real \<Rightarrow> real \<Rightarrow> real run" where
  "fadd x y = fl (x + y)"

definition fsub :: "real \<Rightarrow> real \<Rightarrow> real run" where
  "fsub x y = fl (x - y)"

definition fmul :: "real \<Rightarrow> real \<Rightarrow> real run" where
  "fmul x y = fl (x * y)"

definition fdiv :: "real \<Rightarrow> real \<Rightarrow> real run" where
  "fdiv x y = (if y = 0 then Raises ZeroDivisionError else fl (x / y))"

text \<open>
  An \<open>int\<close> operand of a float operation is converted first; the conversion raises
  \<open>OverflowError\<close> when the integer is too large for a float.
\<close>

definition float_of_int :: "int \<Rightarrow> real run" where
  "float_of_int n =
     (if finite64 (b64 (of_int n)) then Returns (b64 (of_int n)) else Raises OverflowError)"

text \<open>
  \<open>math.pow(x, n)\<close> for an integer \<open>n > 0\<close> (the only calls the calculators make): the
  exponent is converted to a float, the power is taken as correctly rounded, and a result
  out of range raises \<open>OverflowError\<close>. At base \<open>1.0\<close> every C library returns exactly
  \<open>1.0\<close>.
\<close>

definition math_pow :: "real \<Rightarrow> int \<Rightarrow> real run" where
  "math_pow x n =
     then_run (float_of_int n) (\<lambda>y.
       if finite64 (b64 (x ^ nat \<lfloor>y\<rfloor>)) then Returns (b64 (x ^ nat \<lfloor>y\<rfloor>))
       else Raises OverflowError)"

text \<open>\<open>round(x, 2)\<close> of a float: the nearest two-decimal number, as a float again.\<close>

definition fround2 :: "real \<Rightarrow> real" where
  "fround2 x = b64 (round2 x)"

section \<open>The calculators in binary64\<close>

text \<open>
  The same two functions, operation by operation in source order, each result rounded.
  The float literals \<open>100.0\<close> and \<open>12.0\<close> are exact; \<open>0.04\<close> is \<open>b64 (4 / 100)\<close>.
  The arguments are finite binary64 numbers and integers, as the annotations say.
\<close>

definition calculate_sip_projection_b64 :: "real \<Rightarrow> real \<Rightarrow> int \<Rightarrow> pydict run" where
  "calculate_sip_projection_b64 monthly_investment expected_annual_return_pct years =
     (if years \<le> 0 then Returns [(''error'', PStr ''Years must be > 0'')]
      else
        then_run (fdiv expected_annual_return_pct 100) (\<lambda>q.
        then_run (fdiv q 12) (\<lambda>r.
        let n = years * 12 in
        then_run
          (if r = 0 then then_run (float_of_int n) (fmul monthly_investment)
           else
             then_run (fadd 1 r) (\<lambda>a.
             then_run (math_pow a n) (\<lambda>p.
             then_run (fsub p 1) (\<lambda>d.
             then_run (fdiv d r) (\<lambda>c.
             fmul monthly_investment c))))) (\<lambda>future_value.
        then_run (then_run (float_of_int n) (fmul monthly_investment)) (\<lambda>total_invested.
        then_run (fsub future_value total_invested) (\<lambda>gain.
        Returns
          [(''monthly_investment'', PFloat monthly_investment),
           (''expected_annual_return_pct'', PFloat expected_annual_return_pct),
           (''years'', PInt years),
           (''total_invested'', PFloat (fround2 total_invested)),
           (''projected_value'', PFloat (fround2 future_value)),
           (''projected_gain'', PFloat (fround2 gain))]))))))"

definition plan_retirement_goal_b64 ::
  "int \<Rightarrow> int \<Rightarrow> real \<Rightarrow> real \<Rightarrow> real \<Rightarrow> real \<Rightarrow> pydict run" where
  "plan_retirement_goal_b64 current_age retirement_age monthly_expense_today inflation_pct
       expected_return_pct_during_accumulation current_corpus =
     (let years_to_retirement = retirement_age - current_age in
      if years_to_retirement \<le> 0
      then Returns [(''error'', PStr ''Retirement age must be greater than current age.'')]
      else
        then_run (fdiv inflation_pct 100) (\<lambda>infl.
        then_run (fadd 1 infl) (\<lambda>a.
        then_run (math_pow a years_to_retirement) (\<lambda>p.
        then_run (fmul monthly_expense_today p) (\<lambda>target_monthly_at_retirement.
        then_run (fmul target_monthly_at_retirement 12) (\<lambda>annual_exp_at_retirement.
        let safe_withdrawal_rate = b64 (4 / 100) in
        then_run (fdiv annual_exp_at_retirement safe_withdrawal_rate) (\<lambda>required_corpus.
        then_run (fsub required_corpus current_corpus) (\<lambda>d.
        let goal_amount = (if 0 > d then 0 else d) in
        then_run (fdiv expected_return_pct_during_accumulation 100) (\<lambda>q.
        then_run (fdiv q 12) (\<lambda>r.
        let n = years_to_retirement * 12 in
        if n \<le> 0 \<or> r \<le> 0
        then Returns
               [(''error'', PStr ''Invalid inputs for SIP calculation.''),
                (''required_corpus'', PFloat (fround2 required_corpus))]
        else
          then_run (fadd 1 r) (\<lambda>b.
          then_run (math_pow b n) (\<lambda>pn.
          then_run (fsub pn 1) (\<lambda>denom.
          if denom = 0
          then Returns
                 [(''error'', PStr ''Mathematical error in SIP calculation.''),
                  (''required_corpus'', PFloat (fround2 required_corpus))]
          else
            then_run (fmul goal_amount r) (\<lambda>gr.
            then_run (fdiv gr denom) (\<lambda>required_monthly_sip.
            Returns
              [(''current_age'', PInt current_age),
               (''retirement_age'', PInt retirement_age),
               (''years_to_retirement'', PInt years_to_retirement),
               (''monthly_expense_today'', PFloat (fround2 monthly_expense_today)),
               (''inflation_pct'', PFloat inflation_pct),
               (''expected_return_pct_during_accumulation'',
                  PFloat expected_return_pct_during_accumulation),
               (''current_corpus'', PFloat (fround2 current_corpus)),
               (''target_monthly_at_retirement'',
                  PFloat (fround2 target_monthly_at_retirement)),
               (''required_corpus'', PFloat (fround2 required_corpus)),
               (''required_monthly_sip'', PFloat (fround2 required_monthly_sip))])))))))))))))))"

text \<open>
  Steps 1 and 2 of \<open>plan_retirement_goal\<close> on their own (lines 70--77): the required
  corpus, as the run above computes it before it looks at the rate.
\<close>

definition required_corpus_b64 :: "int \<Rightarrow> real \<Rightarrow> real \<Rightarrow> real run" where
  "required_corpus_b64 years_to_retirement monthly_expense_today inflation_pct =
     then_run (fdiv inflation_pct 100) (\<lambda>infl.
     then_run (fadd 1 infl) (\<lambda>a.
     then_run (math_pow a years_to_retirement) (\<lambda>p.
     then_run (fmul monthly_expense_today p) (\<lambda>target_monthly_at_retirement.
     then_run (fmul target_monthly_at_retirement 12) (\<lambda>annual_exp_at_retirement.
     fdiv annual_exp_at_retirement (b64 (4 / 100)))))))"

text \<open>A field of the dictionary a run returns; \<open>None\<close> when it returns none.\<close>

definition returned_field :: "pydict run \<Rightarrow> string \<Rightarrow> pyval option" where
  "returned_field m k = (case m of Returns d \<Rightarrow> map_of d k | _ \<Rightarrow> None)"

section \<open>The spec's formulas\<close>

text \<open>
  The closed forms as the specification words them, to be compared with what the
  calculators compute: the future value of an ordinary annuity, the corpus of the 4\% rule
  and the reversed annuity formula.
\<close>

definition spec_future_value :: "real \<Rightarrow> real \<Rightarrow> nat \<Rightarrow> real" where
  "spec_future_value p r n = (if r = 0 then p * real n else p * ((1 + r) ^ n - 1) / r)"

definition spec_target_monthly :: "real \<Rightarrow> real \<Rightarrow> nat \<Rightarrow> real" where
  "spec_target_monthly expense inflation_pct years = expense * (1 + inflation_pct / 100) ^ years"

definition spec_required_corpus :: "real \<Rightarrow> real \<Rightarrow> nat \<Rightarrow> real" where
  "spec_required_corpus expense inflation_pct years =
     (spec_target_monthly expense inflation_pct years * 12) / (4 / 100)"

definition spec_required_sip :: "real \<Rightarrow> real \<Rightarrow> nat \<Rightarrow> real" where
  "spec_required_sip goal_amount r n = goal_amount * r / ((1 + r) ^ n - 1)"

text \<open>
  The two shapes of the spec's invariant on a calculator result, for a given list of
  derived fields.
\<close>

definition sip_derived :: "string list" where
  "sip_derived = [''total_invested'', ''projected_value'', ''projected_gain'']"

definition plan_derived :: "string list" where
  "plan_derived =
     [''years_to_retirement'', ''target_monthly_at_retirement'', ''required_corpus'',
      ''required_monthly_sip'']"

definition fully_successful :: "string list \<Rightarrow> pydict \<Rightarrow> bool" where
  "fully_successful derived d =
     (set derived \<subseteq> set (keys d) \<and> ''error'' \<notin> set (keys d))"

definition error_only :: "string list \<Rightarrow> pydict \<Rightarrow> bool" where
  "error_only derived d =
     (length (filter (\<lambda>k. k = ''error'') (keys d)) = 1 \<and> set derived \<inter> set (keys d) = {})"

text \<open>Every field of \<open>d\<close> whose key is listed in \<open>ks\<close> holds a float with two decimals.\<close>

definition rounded_fields :: "string list \<Rightarrow> pydict \<Rightarrow> bool" where
  "rounded_fields ks d =
     list_all (\<lambda>(k, v). k \<in> set ks \<longrightarrow> (case v of PFloat x \<Rightarrow> is_2dp x | _ \<Rightarrow> False)) d"


definition plan_float_range :: "int \<Rightarrow> int \<Rightarrow> real \<Rightarrow> real \<Rightarrow> real \<Rightarrow> real \<Rightarrow> bool" where
  "plan_float_range current_age retirement_age monthly_expense_today inflation_pct
       expected_return_pct_during_accumulation current_corpus =
     (retirement_age - current_age \<le> 100 \<and> \<bar>monthly_expense_today\<bar> \<le> 10 ^ 15 \<and>
      \<bar>inflation_pct\<bar> \<le> 100 \<and> \<bar>expected_return_pct_during_accumulation\<bar> \<le> 100 \<and>
      \<bar>current_corpus\<bar> \<le> 10 ^ 18)"

section \<open>The tool catalog\<close>

text \<open>
  \<open>MODEL\<close> and \<open>TOOLS\<close> (lines 10 and 122--201): the schema of each tool as the
  reasoning backend receives it.
\<close>

definition MODEL :: string where
  "MODEL = ''gpt-5-mini''"

record param_spec =
  param_type :: string
  param_description :: string
  param_minimum :: "int option"
  param_default :: "real option"

record tool_spec =
  spec_type :: string
  spec_name :: string
  spec_description :: string
  spec_properties :: "(string \<times> param_spec) list"
  spec_required :: "string list"

definition TOOLS :: "tool_spec list" where
  "TOOLS =
     [\<lparr>spec_type = ''function'',
       spec_name = ''calculate_sip_projection'',
       spec_description =
         ''Calculate projected future value of a monthly investment (SIP) '' @
         ''given years and expected annual return.'',
       spec_properties =
         [(''monthly_investment'',
           \<lparr>param_type = ''number'',
            param_description = ''Amount invested every month, in the user's currency.'',
            param_minimum = None, param_default = None\<rparr>),
          (''expected_annual_return_pct'',
           \<lparr>param_type = ''number'',
            param_description = ''Expected annual return percentage, e.g. 12 for 12%.'',
            param_minimum = None, param_default = None\<rparr>),
          (''years'',
           \<lparr>param_type = ''integer'',
            param_description = ''Number of years for investing.'',
            param_minimum = Some 1, param_default = None\<rparr>)],
       spec_required = [''monthly_investment'', ''expected_annual_return_pct'', ''years'']\<rparr>,
      \<lparr>spec_type = ''function'',
       spec_name = ''plan_retirement_goal'',
       spec_description =
         ''Plan a simplified retirement goal. Use this when the user talks about '' @
         ''retirement corpus, age, or long-term financial independence.'',
       spec_properties =
         [(''current_age'',
           \<lparr>param_type = ''integer'',
            param_description = ''Current age of the user in years.'',
            param_minimum = None, param_default = None\<rparr>),
          (''retirement_age'',
           \<lparr>param_type = ''integer'',
            param_description = ''Desired retirement age in years.'',
            param_minimum = None, param_default = None\<rparr>),
          (''monthly_expense_today'',
           \<lparr>param_type = ''number'',
            param_description = ''Current monthly living expenses in today's money.'',
            param_minimum = None, param_default = None\<rparr>),
          (''inflation_pct'',
           \<lparr>param_type = ''number'',
            param_description = ''Assumed annual inflation percentage, e.g. 6 for 6%.'',
            param_minimum = None, param_default = None\<rparr>),
          (''expected_return_pct_during_accumulation'',
           \<lparr>param_type = ''number'',
            param_description =
              ''Expected annual return percentage on investments until retirement.'',
            param_minimum = None, param_default = None\<rparr>),
          (''current_corpus'',
           \<lparr>param_type = ''number'',
            param_description = ''Current investment corpus saved for retirement.'',
            param_minimum = None, param_default = Some 0\<rparr>)],
       spec_required =
         [''current_age'', ''retirement_age'', ''monthly_expense_today'', ''inflation_pct'',
          ''expected_return_pct_during_accumulation'']\<rparr>]"

section \<open>Calling a tool\<close>

text \<open>
  An exception is a value. The call \<open>tool(**args)\<close> raises \<open>TypeError\<close> when \<open>args\<close> is
  not a mapping, names a parameter the function does not have, or misses a required one.
  \<open>Arithmetic\<close> is an \<open>OverflowError\<close> or a \<open>ZeroDivisionError\<close> of the calculator's
  arithmetic. \<open>Raised\<close> stands for any other exception, with Python's text for it.
\<close>

datatype pyerr =
    NotAMapping
  | UnexpectedKeyword string
  | MissingArguments "string list"
  | Arithmetic arith_error
  | Raised string

text \<open>
  What the model takes from the Python runtime and its \<open>json\<close> library: parsing and
  printing JSON, the text \<open>str(e)\<close> of an exception, and what a calculator does when
  an argument is not of its annotated type (Python checks no annotation: the body may
  still return a result, or raise) or when its arithmetic meets an infinity.
  \<open>json_dumps\<close> is a total function here. In CPython \<open>json.dumps\<close> raises \<open>ValueError\<close>
  on an \<open>int\<close> of more than 4300 digits, which a calculator called with integers in
  place of floats can return; so what is proved below of the dispatcher is proved of
  the runs in which \<open>json.dumps\<close> returns.
\<close>

record runtime =
  json_loads :: "string \<Rightarrow> pyerr + pyval"
  json_dumps :: "pydict \<Rightarrow> string"
  exc_str :: "pyerr \<Rightarrow> string"
  call_untyped :: "string \<Rightarrow> pydict \<Rightarrow> pyerr + pydict"

datatype tool = Calculate_sip_projection | Plan_retirement_goal

text \<open>\<open>TOOL_MAPPING\<close> (lines 115--118) and its \<open>get\<close>.\<close>

definition TOOL_MAPPING :: "(string \<times> tool) list" where
  "TOOL_MAPPING =
     [(''calculate_sip_projection'', Calculate_sip_projection),
      (''plan_retirement_goal'', Plan_retirement_goal)]"

text \<open>The parameters of each function, in order, with whether each is required.\<close>

fun tool_params :: "tool \<Rightarrow> (string \<times> bool) list" where
  "tool_params Calculate_sip_projection =
     [(''monthly_investment'', True), (''expected_annual_return_pct'', True), (''years'', True)]"
| "tool_params Plan_retirement_goal =
     [(''current_age'', True), (''retirement_age'', True), (''monthly_expense_today'', True),
      (''inflation_pct'', True), (''expected_return_pct_during_accumulation'', True),
      (''current_corpus'', False)]"

text \<open>
  A JSON float for a \<open>float\<close> parameter, a JSON integer for an \<open>int\<close> parameter. An
  integer given for a \<open>float\<close> parameter is not converted: Python computes with it as an
  \<open>int\<close>, so that call is not one of the typed calls.
\<close>

fun as_float :: "pyval option \<Rightarrow> real option" where
  "as_float (Some (PFloat x)) = Some x"
| "as_float _ = None"

fun as_int :: "pyval option \<Rightarrow> int option" where
  "as_int (Some (PInt i)) = Some i"
| "as_int _ = None"

text \<open>
  The outcome of a binary64 run as the outcome of the call: a returned dictionary, an
  arithmetic exception, or what the runtime says of a run that met an infinity.
\<close>

definition of_run :: "runtime \<Rightarrow> string \<Rightarrow> pydict \<Rightarrow> pydict run \<Rightarrow> pyerr + pydict" where
  "of_run rt name kwargs m =
     (case m of
        Returns d \<Rightarrow> Inr d
      | Raises e \<Rightarrow> Inl (Arithmetic e)
      | NonFinite \<Rightarrow> call_untyped rt name kwargs)"

text \<open>
  The call with well-typed keyword arguments runs the calculator in binary64;
  \<open>current_corpus\<close> defaults to \<open>0.0\<close>. Every other call is left to the runtime.
\<close>

fun call_typed :: "runtime \<Rightarrow> tool \<Rightarrow> pydict \<Rightarrow> pyerr + pydict" where
  "call_typed rt Calculate_sip_projection kwargs =
     (case (as_float (map_of kwargs ''monthly_investment''),
            as_float (map_of kwargs ''expected_annual_return_pct''),
            as_int (map_of kwargs ''years'')) of
        (Some monthly_investment, Some expected_annual_return_pct, Some years) \<Rightarrow>
          of_run rt ''calculate_sip_projection'' kwargs
            (calculate_sip_projection_b64 monthly_investment expected_annual_return_pct years)
      | _ \<Rightarrow> call_untyped rt ''calculate_sip_projection'' kwargs)"
| "call_typed rt Plan_retirement_goal kwargs =
     (case (as_int (map_of kwargs ''current_age''),
            as_int (map_of kwargs ''retirement_age''),
            as_float (map_of kwargs ''monthly_expense_today''),
            as_float (map_of kwargs ''inflation_pct''),
            as_float (map_of kwargs ''expected_return_pct_during_accumulation''),
            (case map_of kwargs ''current_corpus'' of
               None \<Rightarrow> Some 0 | Some v \<Rightarrow> as_float (Some v))) of
        (Some current_age, Some retirement_age, Some monthly_expense_today,
         Some inflation_pct, Some expected_return_pct_during_accumulation,
         Some current_corpus) \<Rightarrow>
          of_run rt ''plan_retirement_goal'' kwargs
            (plan_retirement_goal_b64 current_age retirement_age monthly_expense_today
               inflation_pct expected_return_pct_during_accumulation current_corpus)
      | _ \<Rightarrow> call_untyped rt ''plan_retirement_goal'' kwargs)"

definition call_tool :: "runtime \<Rightarrow> tool \<Rightarrow> pyval \<Rightarrow> pyerr + pydict" where
  "call_tool rt t args =
     (case args of
        PDict kwargs \<Rightarrow>
          (case filter (\<lambda>k. k \<notin> set (map fst (tool_params t))) (keys kwargs) of
             k # _ \<Rightarrow> Inl (UnexpectedKeyword k)
           | [] \<Rightarrow>
               (case filter (\<lambda>p. p \<notin> set (keys kwargs))
                       (map fst (filter snd (tool_params t))) of
                  p # ps \<Rightarrow> Inl (MissingArguments (p # ps))
                | [] \<Rightarrow> call_typed rt t kwargs))
      | _ \<Rightarrow> Inl NotAMapping)"

section \<open>The dispatcher\<close>

record output_item =
  item_type :: string
  item_name :: string
  item_arguments :: string
  item_call_id :: string

record turn_response =
  resp_id :: string
  resp_output :: "output_item list"
  resp_output_text :: string

record function_call_output =
  fco_type :: string
  fco_call_id :: string
  fco_output :: string

text \<open>
  The body of the \<open>try\<close> (lines 226--228): an empty argument string stands for no
  arguments.
\<close>

definition run_tool :: "runtime \<Rightarrow> tool \<Rightarrow> string \<Rightarrow> pyerr + pydict" where
  "run_tool rt t arguments =
     (case (if arguments \<noteq> [] then json_loads rt arguments else Inr (PDict [])) of
        Inl e \<Rightarrow> Inl e
      | Inr args \<Rightarrow> call_tool rt t args)"

text \<open>A tool name between single quotes, as the f-strings of lines 222 and 231 print it.\<close>

definition quoted :: "string \<Rightarrow> string" where
  "quoted s = [CHR 0x27] @ s @ [CHR 0x27]"

text \<open>The output for one function call (lines 217--232).\<close>

definition tool_output_of :: "runtime \<Rightarrow> output_item \<Rightarrow> pydict" where
  "tool_output_of rt item =
     (let tool_name = item_name item in
      case map_of TOOL_MAPPING tool_name of
        None \<Rightarrow>
          [(''error'', PStr (''No local implementation for tool '' @ quoted tool_name))]
      | Some t \<Rightarrow>
          (case run_tool rt t (item_arguments item) of
             Inr tool_result \<Rightarrow> tool_result
           | Inl e \<Rightarrow>
               [(''error'',
                 PStr (''Exception while running tool '' @ quoted tool_name @ '': '' @
                       exc_str rt e))]))"

text \<open>
  \<open>invoke_tools_from_response\<close> (lines 205--242): the loop over \<open>response.output\<close>,
  appending one \<open>function_call_output\<close> for each item of type \<open>function_call\<close>.
\<close>

fun invoke_loop ::
  "runtime \<Rightarrow> output_item list \<Rightarrow> function_call_output list \<Rightarrow> function_call_output list"
where
  "invoke_loop rt [] messages_to_model = messages_to_model"
| "invoke_loop rt (item # rest) messages_to_model =
     (if item_type item = ''function_call''
      then invoke_loop rt rest
             (messages_to_model @
              [\<lparr>fco_type = ''function_call_output'',
                fco_call_id = item_call_id item,
                fco_output = json_dumps rt (tool_output_of rt item)\<rparr>])
      else invoke_loop rt rest messages_to_model)"

definition invoke_tools_from_response ::
  "runtime \<Rightarrow> turn_response \<Rightarrow> function_call_output list" where
  "invoke_tools_from_response rt response = invoke_loop rt (resp_output response) []"

text \<open>The tool-invocation requests of a response, in the order they appear.\<close>

definition tool_requests :: "turn_response \<Rightarrow> output_item list" where
  "tool_requests response =
     filter (\<lambda>item. item_type item = ''function_call'') (resp_output response)"

section \<open>The turn orchestrator\<close>

text \<open>
  A request to the backend (\<open>client.responses.create\<close>), and the backend itself: an
  external service with a state of its own, which answers each request with a response.
  Transport failures are outside the model.
\<close>

datatype request_input = UserText string | ToolOutputs "function_call_output list"

record request =
  req_model :: string
  req_input :: request_input
  req_tools :: "tool_spec list"
  req_previous_response_id :: "string option"

type_synonym 's backend = "request \<Rightarrow> 's \<Rightarrow> turn_response \<times> 's"

text \<open>The first request of a turn (lines 253--258) and a resubmission (lines 269--274).\<close>

definition first_request :: "string \<Rightarrow> string option \<Rightarrow> request" where
  "first_request user_input previous_response_id =
     \<lparr>req_model = MODEL, req_input = UserText user_input, req_tools = TOOLS,
      req_previous_response_id = previous_response_id\<rparr>"

definition resubmission :: "function_call_output list \<Rightarrow> turn_response \<Rightarrow> request" where
  "resubmission function_messages response =
     \<lparr>req_model = MODEL, req_input = ToolOutputs function_messages, req_tools = TOOLS,
      req_previous_response_id = Some (resp_id response)\<rparr>"

text \<open>
  The \<open>while True\<close> loop of \<open>run_agent_turn\<close> (lines 260--274). It may run forever, so
  its result is an option. \<open>sent\<close> records the requests issued so far, one per round
  trip; the source keeps no such list.
\<close>

partial_function (option) agent_loop ::
  "runtime \<Rightarrow> 's backend \<Rightarrow> turn_response \<Rightarrow> 's \<Rightarrow> request list
     \<Rightarrow> (turn_response \<times> 's \<times> request list) option"
where
  "agent_loop rt create response s sent =
     (let function_messages = invoke_tools_from_response rt response in
      if function_messages = [] then Some (response, s, sent)
      else
        (let req = resubmission function_messages response in
         case create req s of
           (response', s') \<Rightarrow> agent_loop rt create response' s' (sent @ [req])))"

definition run_agent_turn ::
  "runtime \<Rightarrow> 's backend \<Rightarrow> string \<Rightarrow> string option \<Rightarrow> 's
     \<Rightarrow> (turn_response \<times> 's \<times> request list) option" where
  "run_agent_turn rt create user_input previous_response_id s =
     (let req = first_request user_input previous_response_id in
      case create req s of
        (response, s') \<Rightarrow> agent_loop rt create response s' [req])"

text \<open>
  The \<open>k\<close>-th round trip of a turn, should the loop get that far: the request sent, the
  response received and the backend's state after it.
\<close>

fun exchange ::
  "runtime \<Rightarrow> 's backend \<Rightarrow> request \<Rightarrow> 's \<Rightarrow> nat \<Rightarrow> request \<times> turn_response \<times> 's" where
  "exchange rt create req0 s0 0 =
     (case create req0 s0 of (response, s) \<Rightarrow> (req0, response, s))"
| "exchange rt create req0 s0 (Suc k) =
     (case exchange rt create req0 s0 k of
        (_, response, s) \<Rightarrow>
          (let req = resubmission (invoke_tools_from_response rt response) response in
           case create req s of (response', s') \<Rightarrow> (req, response', s')))"

definition sent_request :: "runtime \<Rightarrow> 's backend \<Rightarrow> request \<Rightarrow> 's \<Rightarrow> nat \<Rightarrow> request" where
  "sent_request rt create req0 s0 k = fst (exchange rt create req0 s0 k)"

definition received :: "runtime \<Rightarrow> 's backend \<Rightarrow> request \<Rightarrow> 's \<Rightarrow> nat \<Rightarrow> turn_response" where
  "received rt create req0 s0 k = fst (snd (exchange rt create req0 s0 k))"

definition state_after :: "runtime \<Rightarrow> 's backend \<Rightarrow> request \<Rightarrow> 's \<Rightarrow> nat \<Rightarrow> 's" where
  "state_after rt create req0 s0 k = snd (snd (exchange rt create req0 s0 k))"

section \<open>Concrete inputs\<close>

text \<open>
  A runtime whose parser rejects everything but \<open>{}\<close>, a response with one reasoning item
  and three function calls (an unknown tool, an unparsable payload, missing arguments;
  two of them with the same call identifier), a final response, and a backend that
  answers the first request with the former and every later one with the latter.
\<close>

definition demo_runtime :: runtime where
  "demo_runtime =
     \<lparr>json_loads = (\<lambda>s. if s = ''{}'' then Inr (PDict []) else Inl (Raised ''Expecting value'')),
      json_dumps = (\<lambda>d. concat (keys d)),
      exc_str = (\<lambda>e. case e of Raised s \<Rightarrow> s | _ \<Rightarrow> ''TypeError''),
      call_untyped = (\<lambda>name kwargs. Inl (Raised ''TypeError''))\<rparr>"

definition demo_response :: turn_response where
  "demo_response =
     \<lparr>resp_id = ''resp_1'',
      resp_output =
        [\<lparr>item_type = ''reasoning'', item_name = [], item_arguments = [], item_call_id = []\<rparr>,
         \<lparr>item_type = ''function_call'', item_name = ''get_weather'',
          item_arguments = ''{}'', item_call_id = ''call_a''\<rparr>,
         \<lparr>item_type = ''function_call'', item_name = ''calculate_sip_projection'',
          item_arguments = ''{oops'', item_call_id = ''call_b''\<rparr>,
         \<lparr>item_type = ''function_call'', item_name = ''calculate_sip_projection'',
          item_arguments = ''{}'', item_call_id = ''call_a''\<rparr>],
      resp_output_text = []\<rparr>"

definition demo_final :: turn_response where
  "demo_final =
     \<lparr>resp_id = ''resp_2'',
      resp_output =
        [\<lparr>item_type = ''message'', item_name = [], item_arguments = [], item_call_id = []\<rparr>],
      resp_output_text = ''Done.''\<rparr>"

definition demo_backend :: "nat backend" where
  "demo_backend req k = (if k = 0 then demo_response else demo_final, Suc k)"

section \<open>Facts about rounding\<close>

lemma round_half_even_bounds: "\<bar>of_int (round_half_even x) - x\<bar> \<le> 1 / 2"
  unfolding round_half_even_def Let_def by (auto; linarith)

lemma round_half_even_mono:
  assumes "x \<le> y"
  shows "round_half_even x \<le> round_half_even y"
proof (cases "\<lfloor>x\<rfloor> = \<lfloor>y\<rfloor>")
  case True
  then show ?thesis
    using assms unfolding round_half_even_def Let_def by auto
next
  case False
  with assms have "\<lfloor>x\<rfloor> + 1 \<le> \<lfloor>y\<rfloor>"
    using floor_mono [OF assms] by linarith
  moreover have "round_half_even x \<le> \<lfloor>x\<rfloor> + 1"
    unfolding round_half_even_def Let_def by auto
  moreover have "\<lfloor>y\<rfloor> \<le> round_half_even y"
    unfolding round_half_even_def Let_def by auto
  ultimately show ?thesis by linarith
qed

lemma round_half_even_of_int: "round_half_even (of_int k) = k"
  unfolding round_half_even_def Let_def by simp

lemma round_half_even_eqI:
  assumes "of_int k - 1 / 2 < x" and "x < of_int k + 1 / 2"
  shows "round_half_even x = k"
proof -
  have "\<lfloor>x\<rfloor> = k \<or> \<lfloor>x\<rfloor> = k - 1"
    using assms by linarith
  then show ?thesis
    using assms unfolding round_half_even_def Let_def by (auto; linarith)
qed

lemma round2_mono: "x \<le> y \<Longrightarrow> round2 x \<le> round2 y"
  unfolding round2_def using round_half_even_mono [of "x * 100" "y * 100"]
  by (simp add: divide_right_mono)

lemma round2_of_int: "round2 (of_int k) = of_int k"
proof -
  have "round_half_even (of_int (k * 100)) = k * 100"
    by (rule round_half_even_of_int)
  then show ?thesis unfolding round2_def by simp
qed

lemma round2_zero: "round2 0 = 0"
  using round2_of_int [of 0] by simp

lemma round2_nonneg: "0 \<le> x \<Longrightarrow> 0 \<le> round2 x"
  using round2_mono [of 0 x] by (simp add: round2_zero)

lemma is_2dp_round2: "is_2dp (round2 x)"
  unfolding is_2dp_def round2_def by simp

lemma round2_close: "\<bar>round2 x - x\<bar> \<le> 1 / 200"
  using round_half_even_bounds [of "x * 100"] unfolding round2_def
  by (simp add: field_simps)


section \<open>The calculators, path by path\<close>

lemma sip_success:
  assumes "1 \<le> years"
  shows "calculate_sip_projection m pct years =
     [(''monthly_investment'', PFloat m),
      (''expected_annual_return_pct'', PFloat pct),
      (''years'', PInt years),
      (''total_invested'', PFloat (round2 (m * real (nat (years * 12))))),
      (''projected_value'',
         PFloat (round2 (spec_future_value m (pct / 100 / 12) (nat (years * 12))))),
      (''projected_gain'',
         PFloat (round2 (spec_future_value m (pct / 100 / 12) (nat (years * 12))
                          - m * real (nat (years * 12)))))]"
proof -
  have n: "real_of_int (years * 12) = real (nat (years * 12))"
    using assms by simp
  have fv: "(if pct / 100 / 12 = 0 then m * real (nat (years * 12))
             else m * (((1 + pct / 100 / 12) ^ nat (years * 12) - 1) / (pct / 100 / 12)))
            = spec_future_value m (pct / 100 / 12) (nat (years * 12))"
    unfolding spec_future_value_def by simp
  have pos: "\<not> years \<le> 0"
    using assms by simp
  show ?thesis
    unfolding calculate_sip_projection_def Let_def n fv using pos by simp
qed

lemma pow_minus_one_pos:
  fixes r :: real
  assumes "0 < r" and "0 < n"
  shows "0 < (1 + r) ^ n - 1"
  using one_less_power [of "1 + r" n] assms by simp

lemma plan_not_after:
  assumes "retirement_age \<le> current_age"
  shows "plan_retirement_goal current_age retirement_age expense infl pct corpus =
     [(''error'', PStr ''Retirement age must be greater than current age.'')]"
  using assms unfolding plan_retirement_goal_def Let_def by simp

lemma plan_invalid:
  assumes "current_age < retirement_age" and "pct \<le> 0"
  shows "plan_retirement_goal current_age retirement_age expense infl pct corpus =
     [(''error'', PStr ''Invalid inputs for SIP calculation.''),
      (''required_corpus'',
         PFloat (round2 (spec_required_corpus expense infl (nat (retirement_age - current_age)))))]"
proof -
  have "pct / 100 / 12 \<le> 0"
    using assms(2) by simp
  then show ?thesis
    using assms(1) unfolding plan_retirement_goal_def Let_def spec_required_corpus_def
      spec_target_monthly_def
    by simp
qed

lemma plan_success:
  assumes "current_age < retirement_age" and "0 < pct"
  shows "plan_retirement_goal current_age retirement_age expense infl pct corpus =
     [(''current_age'', PInt current_age),
      (''retirement_age'', PInt retirement_age),
      (''years_to_retirement'', PInt (retirement_age - current_age)),
      (''monthly_expense_today'', PFloat (round2 expense)),
      (''inflation_pct'', PFloat infl),
      (''expected_return_pct_during_accumulation'', PFloat pct),
      (''current_corpus'', PFloat (round2 corpus)),
      (''target_monthly_at_retirement'',
         PFloat (round2 (spec_target_monthly expense infl (nat (retirement_age - current_age))))),
      (''required_corpus'',
         PFloat (round2 (spec_required_corpus expense infl (nat (retirement_age - current_age))))),
      (''required_monthly_sip'',
         PFloat (round2 (spec_required_sip
           (max (spec_required_corpus expense infl (nat (retirement_age - current_age)) - corpus) 0)
           (pct / 100 / 12) (nat ((retirement_age - current_age) * 12)))))]"
proof -
  have r: "0 < pct / 100 / 12"
    using assms(2) by simp
  have n: "0 < nat ((retirement_age - current_age) * 12)"
    using assms(1) by simp
  have d: "(1 + pct / 100 / 12) ^ nat ((retirement_age - current_age) * 12) - 1 \<noteq> 0"
    using pow_minus_one_pos [OF r n] by simp
  have nr: "\<not> pct / 100 / 12 \<le> 0"
    using r by simp
  show ?thesis
    using assms(1) d nr unfolding plan_retirement_goal_def Let_def spec_required_corpus_def
      spec_target_monthly_def spec_required_sip_def
    by simp
qed

section \<open>Two closed inputs\<close>



lemma spec_future_value_ge:
  assumes "0 \<le> p" and "0 \<le> r"
  shows "p * real n \<le> spec_future_value p r n"
proof (cases "r = 0")
  case True
  then show ?thesis by (simp add: spec_future_value_def)
next
  case False
  with assms have r: "0 < r" by simp
  have "1 + real n * r \<le> (1 + r) ^ n"
    using Bernoulli_inequality [of r n] r by simp
  then have "real n * r \<le> (1 + r) ^ n - 1" by simp
  then have "real n \<le> ((1 + r) ^ n - 1) / r"
    using r by (simp add: pos_le_divide_eq)
  then have "p * real n \<le> p * (((1 + r) ^ n - 1) / r)"
    using assms(1) by (rule mult_left_mono)
  then show ?thesis
    using False by (simp add: spec_future_value_def)
qed

lemma spec_required_sip_nonneg:
  assumes "0 \<le> g" and "0 < r" and "0 < n"
  shows "0 \<le> spec_required_sip g r n"
  unfolding spec_required_sip_def
  using assms pow_minus_one_pos [OF assms(2,3)] by simp

lemma plan_no_error_iff:
  "''error'' \<notin> set (keys (plan_retirement_goal ca ra e infl pct cc)) \<longleftrightarrow> ca < ra \<and> 0 < pct"
proof (cases "ca < ra")
  case False
  then show ?thesis
    using plan_not_after [of ra ca e infl pct cc] by (simp add: keys_def)
next
  case True
  show ?thesis
  proof (cases "0 < pct")
    case False
    then show ?thesis
      using True plan_invalid [of ca ra pct e infl cc] by (simp add: keys_def)
  next
    case pos: True
    show ?thesis
      using True pos plan_success [of ca ra pct e infl cc] by (simp add: keys_def)
  qed
qed

section \<open>Facts about binary64 rounding\<close>

lemma two_powr_int: "(2::real) powr real_of_int k = 2 powi k"
  by (simp add: powr_real_of_int')

lemma two_powr_int_Suc: "(2::real) powr (real_of_int k + 1) = 2 powi (k + 1)"
  using two_powr_int [of "k + 1"] by simp

lemma floor_log2_bounds:
  assumes "x \<noteq> 0"
  shows "2 powi \<lfloor>log 2 \<bar>x\<bar>\<rfloor> \<le> \<bar>x\<bar>" and "\<bar>x\<bar> < 2 powi (\<lfloor>log 2 \<bar>x\<bar>\<rfloor> + 1)"
proof -
  have pos: "0 < \<bar>x\<bar>" using assms by simp
  have "2 powr real_of_int \<lfloor>log 2 \<bar>x\<bar>\<rfloor> \<le> \<bar>x\<bar> \<and>
        \<bar>x\<bar> < 2 powr (real_of_int \<lfloor>log 2 \<bar>x\<bar>\<rfloor> + 1)"
    using floor_log_eq_powr_iff [of "\<bar>x\<bar>" 2 "\<lfloor>log 2 \<bar>x\<bar>\<rfloor>"] pos by simp
  then show "2 powi \<lfloor>log 2 \<bar>x\<bar>\<rfloor> \<le> \<bar>x\<bar>" and "\<bar>x\<bar> < 2 powi (\<lfloor>log 2 \<bar>x\<bar>\<rfloor> + 1)"
    unfolding two_powr_int two_powr_int_Suc by simp_all
qed

lemma floor_log2_unique:
  assumes "2 powi k \<le> \<bar>x\<bar>" and "\<bar>x\<bar> < 2 powi (k + 1)"
  shows "\<lfloor>log 2 \<bar>x\<bar>\<rfloor> = k"
proof -
  have pos: "0 < \<bar>x\<bar>"
    using assms(1) zero_less_power_int [of "2::real" k] by linarith
  have "2 powr real_of_int k \<le> \<bar>x\<bar> \<and> \<bar>x\<bar> < 2 powr (real_of_int k + 1)"
    unfolding two_powr_int two_powr_int_Suc using assms by simp
  then show ?thesis
    using floor_log_eq_powr_iff [of "\<bar>x\<bar>" 2 k] pos by simp
qed

lemma two_powi_int:
  assumes "0 \<le> j"
  shows "(2::real) powi j = of_int (2 ^ nat j)"
  using assms by (simp add: power_int_nonneg_exp)

lemma round_half_even_two_powi:
  assumes "0 \<le> j"
  shows "round_half_even (2 powi j) = 2 ^ nat j"
  unfolding two_powi_int [OF assms] by (rule round_half_even_of_int)

text \<open>Lower bound: a positive number at least a normal power of two rounds no lower.\<close>

lemma b64_lower:
  assumes "2 powi a \<le> x" and "- 1022 \<le> a"
  shows "2 powi a \<le> b64 x"
proof -
  have xpos: "0 < x"
    using assms(1) zero_less_power_int [of "2::real" a] by linarith
  then have ax: "\<bar>x\<bar> = x" by simp
  define e0 where "e0 = \<lfloor>log 2 \<bar>x\<bar>\<rfloor>"
  have lo: "2 powi e0 \<le> x" and hi: "x < 2 powi (e0 + 1)"
    using floor_log2_bounds [of x] xpos unfolding e0_def ax by simp_all
  have "2 powi a < (2::real) powi (e0 + 1)"
    using assms(1) hi by linarith
  then have "a < e0 + 1"
    using power_int_strict_increasing [of "e0 + 1" a "2::real"]
      power_int_increasing [of "e0 + 1" a "2::real"]
    by (cases "a < e0 + 1") (simp_all add: not_less)
  then have ae: "a \<le> e0" by simp
  then have e: "max e0 (- 1022) = e0"
    using assms(2) by simp
  define u :: real where "u = 2 powi (e0 - 52)"
  have upos: "0 < u" unfolding u_def by simp
  have "2 powi 52 * u = (2::real) powi e0"
    unfolding u_def using power_int_add [of "2::real" 52 "e0 - 52"] by simp
  then have "2 powi 52 \<le> x / u"
    using lo upos by (simp add: pos_le_divide_eq)
  then have "round_half_even (2 powi 52) \<le> round_half_even (x / u)"
    by (rule round_half_even_mono)
  then have "(2::int) ^ 52 \<le> round_half_even (x / u)"
    using round_half_even_two_powi [of 52] by simp
  then have "(2::real) ^ 52 \<le> of_int (round_half_even (x / u))"
    by (metis of_int_le_iff of_int_numeral of_int_power)
  then have "2 ^ 52 * u \<le> of_int (round_half_even (x / u)) * u"
    using upos by simp
  moreover have "2 ^ 52 * u = (2::real) powi e0"
    using \<open>2 powi 52 * u = (2::real) powi e0\<close> by simp
  moreover have "b64 x = of_int (round_half_even (x / u)) * u"
    using xpos unfolding b64_def Let_def e0_def [symmetric] e u_def by simp
  moreover have "(2::real) powi a \<le> 2 powi e0"
    using ae by (intro power_int_increasing) simp_all
  ultimately show ?thesis by linarith
qed

text \<open>Upper bound: a positive number at most a normal power of two rounds no higher.\<close>

lemma b64_upper:
  assumes "0 < x" and "x \<le> 2 powi b" and "- 1022 \<le> b"
  shows "b64 x \<le> 2 powi b"
proof -
  have ax: "\<bar>x\<bar> = x" using assms(1) by simp
  define e0 where "e0 = \<lfloor>log 2 \<bar>x\<bar>\<rfloor>"
  have lo: "2 powi e0 \<le> x"
    using floor_log2_bounds(1) [of x] assms(1) unfolding e0_def ax by simp
  have "(2::real) powi e0 \<le> 2 powi b"
    using lo assms(2) by linarith
  then have "e0 \<le> b"
    using power_int_strict_increasing [of b e0 "2::real"]
    by (cases "e0 \<le> b") (simp_all add: not_le)
  define e where "e = max e0 (- 1022)"
  have eb: "e \<le> b" unfolding e_def using \<open>e0 \<le> b\<close> assms(3) by simp
  define u :: real where "u = 2 powi (e - 52)"
  have upos: "0 < u" unfolding u_def by simp
  define j where "j = b - e + 52"
  have j0: "0 \<le> j" unfolding j_def using eb by simp
  have ju: "2 powi j * u = (2::real) powi b"
    unfolding u_def j_def using power_int_add [of "2::real" "b - e + 52" "e - 52"] by simp
  then have "x / u \<le> 2 powi j"
    using assms(2) upos by (simp add: pos_divide_le_eq)
  then have "round_half_even (x / u) \<le> round_half_even (2 powi j)"
    by (rule round_half_even_mono)
  then have "round_half_even (x / u) \<le> 2 ^ nat j"
    using round_half_even_two_powi [OF j0] by simp
  then have "real_of_int (round_half_even (x / u)) \<le> of_int (2 ^ nat j)"
    by (simp only: of_int_le_iff)
  then have "real_of_int (round_half_even (x / u)) \<le> 2 powi j"
    using two_powi_int [OF j0] by simp
  then have "of_int (round_half_even (x / u)) * u \<le> 2 powi j * u"
    using upos by simp
  moreover have "b64 x = of_int (round_half_even (x / u)) * u"
    using assms(1) unfolding b64_def Let_def e0_def [symmetric] e_def [symmetric] u_def by simp
  ultimately show ?thesis using ju by simp
qed

lemma b64_zero: "b64 0 = 0"
  by (simp add: b64_def)

text \<open>The sign is kept.\<close>

lemma b64_nonneg: "0 \<le> x \<Longrightarrow> 0 \<le> b64 x"
  unfolding b64_def Let_def
  using round_half_even_mono [of 0 "x / 2 powi (max \<lfloor>log 2 \<bar>x\<bar>\<rfloor> (- 1022) - 52)"]
    round_half_even_of_int [of 0]
  by simp

lemma b64_nonpos: "x \<le> 0 \<Longrightarrow> b64 x \<le> 0"
proof -
  assume x: "x \<le> 0"
  define u :: real where "u = 2 powi (max \<lfloor>log 2 \<bar>x\<bar>\<rfloor> (- 1022) - 52)"
  have upos: "0 < u" unfolding u_def by simp
  have "x / u \<le> 0" using x upos by (simp add: divide_nonpos_pos)
  then have "round_half_even (x / u) \<le> round_half_even 0"
    by (rule round_half_even_mono)
  then have "round_half_even (x / u) \<le> 0"
    using round_half_even_of_int [of 0] by simp
  then have "real_of_int (round_half_even (x / u)) * u \<le> 0"
    using upos by (simp add: mult_le_0_iff)
  then show ?thesis
    unfolding b64_def Let_def u_def by simp
qed

text \<open>Integers of at most 53 bits are binary64 numbers.\<close>

lemma b64_of_int:
  assumes "\<bar>k\<bar> < 2 ^ 53"
  shows "b64 (of_int k) = of_int k"
proof (cases "k = 0")
  case True
  then show ?thesis by (simp add: b64_def)
next
  case False
  define x :: real where "x = of_int k"
  have x0: "x \<noteq> 0" unfolding x_def using False by simp
  define e0 where "e0 = \<lfloor>log 2 \<bar>x\<bar>\<rfloor>"
  have lo: "2 powi e0 \<le> \<bar>x\<bar>" and hi: "\<bar>x\<bar> < 2 powi (e0 + 1)"
    using floor_log2_bounds [OF x0] unfolding e0_def by simp_all
  have "1 \<le> \<bar>k\<bar>" using False by simp
  then have "1 \<le> \<bar>x\<bar>" unfolding x_def by (metis of_int_1_le_iff of_int_abs)
  then have "(2::real) powi 0 < 2 powi (e0 + 1)" using hi by simp
  then have e0_lo: "0 \<le> e0"
    using power_int_increasing [of "e0 + 1" 0 "2::real"]
    by (cases "0 < e0 + 1") (simp_all add: not_less)
  have "\<bar>x\<bar> < 2 ^ 53"
    unfolding x_def using assms by (metis of_int_abs of_int_less_iff of_int_numeral of_int_power)
  then have "(2::real) powi e0 < 2 powi 53" using lo by simp
  then have e0_hi: "e0 \<le> 52"
    using power_int_increasing [of 53 e0 "2::real"]
    by (cases "e0 < 53") (simp_all add: not_less)
  have e: "max e0 (- 1022) = e0" using e0_lo by simp
  define j where "j = 52 - e0"
  have j0: "0 \<le> j" unfolding j_def using e0_hi by simp
  have u: "(2::real) powi (e0 - 52) = 1 / 2 powi j"
    unfolding j_def using power_int_minus_divide [of "2::real" "52 - e0"] by simp
  have "x / 2 powi (e0 - 52) = x * 2 powi j"
    unfolding u by simp
  also have "\<dots> = of_int (k * 2 ^ nat j)"
    unfolding x_def two_powi_int [OF j0] by simp
  finally have q: "x / 2 powi (e0 - 52) = of_int (k * 2 ^ nat j)" .
  have "b64 x = of_int (round_half_even (x / 2 powi (e0 - 52))) * 2 powi (e0 - 52)"
    using x0 unfolding b64_def Let_def e0_def [symmetric] e by simp
  also have "\<dots> = of_int (k * 2 ^ nat j) * 2 powi (e0 - 52)"
    unfolding q round_half_even_of_int ..
  also have "\<dots> = x * 2 powi j * (1 / 2 powi j)"
    unfolding u x_def two_powi_int [OF j0] by simp
  also have "\<dots> = x" by simp
  finally show ?thesis unfolding x_def .
qed

text \<open>Adding less than half a unit in the last place to 1 gives 1 again.\<close>

lemma b64_one_plus:
  assumes "0 \<le> r" and "r < 1 / 2 ^ 53"
  shows "b64 (1 + r) = 1"
proof -
  define x where "x = 1 + r"
  have x1: "1 \<le> x" and x2: "x < 2"
    unfolding x_def using assms by simp_all
  have ax: "\<bar>x\<bar> = x" using x1 by simp
  have "\<lfloor>log 2 \<bar>x\<bar>\<rfloor> = 0"
    using x1 x2 by (intro floor_log2_unique) (simp_all add: ax)
  then have b: "b64 x = of_int (round_half_even (x / 2 powi (- 52))) * 2 powi (- 52)"
    using x1 unfolding b64_def Let_def by simp
  have q: "x / 2 powi (- 52) = 2 ^ 52 + r * 2 ^ 52"
    unfolding x_def by (simp add: power_int_minus field_simps)
  have "r * 2 ^ 52 < 1 / 2"
    using assms(2) by (simp add: field_simps)
  moreover have "0 \<le> r * 2 ^ 52" using assms(1) by simp
  ultimately have "round_half_even (x / 2 powi (- 52)) = 2 ^ 52"
    unfolding q by (intro round_half_even_eqI) simp_all
  then show ?thesis
    unfolding x_def [symmetric] b by (simp add: power_int_minus)
qed

lemma round_half_even_neg: "round_half_even (- x) = - round_half_even x"
proof (cases "x = of_int \<lfloor>x\<rfloor>")
  case True
  then have "round_half_even x = \<lfloor>x\<rfloor>"
    using round_half_even_of_int [of "\<lfloor>x\<rfloor>"] by simp
  moreover have "- x = of_int (- \<lfloor>x\<rfloor>)" using True by simp
  then have "round_half_even (- x) = - \<lfloor>x\<rfloor>"
    using round_half_even_of_int [of "- \<lfloor>x\<rfloor>"] by simp
  ultimately show ?thesis by simp
next
  case False
  have lt: "of_int \<lfloor>x\<rfloor> < x"
    using False of_int_floor_le [of x] by linarith
  have gt: "x < of_int \<lfloor>x\<rfloor> + 1" by linarith
  have f: "\<lfloor>- x\<rfloor> = - \<lfloor>x\<rfloor> - 1"
  proof (rule floor_unique)
    show "of_int (- \<lfloor>x\<rfloor> - 1) \<le> - x" by simp linarith
    show "- x < of_int (- \<lfloor>x\<rfloor> - 1) + 1" using lt by simp
  qed
  show ?thesis
    unfolding round_half_even_def Let_def f using lt gt by auto
qed

lemma b64_neg: "b64 (- x) = - b64 x"
  unfolding b64_def Let_def by (simp add: round_half_even_neg)

lemma b64_abs_le:
  assumes "\<bar>x\<bar> \<le> 2 powi b" and "- 1022 \<le> b"
  shows "\<bar>b64 x\<bar> \<le> 2 powi b"
proof -
  consider "x = 0" | "0 < x" | "x < 0" by linarith
  then show ?thesis
  proof cases
    case 1
    then show ?thesis by (simp add: b64_zero)
  next
    case 2
    then have "b64 x \<le> 2 powi b" using assms by (intro b64_upper) simp_all
    moreover have "0 \<le> b64 x" using 2 by (intro b64_nonneg) simp
    ultimately show ?thesis by simp
  next
    case 3
    then have "b64 (- x) \<le> 2 powi b" using assms by (intro b64_upper) simp_all
    moreover have "0 \<le> b64 (- x)" using 3 by (intro b64_nonneg) simp
    ultimately show ?thesis by (simp add: b64_neg)
  qed
qed

lemma b64_abs_ge:
  assumes "2 powi a \<le> \<bar>x\<bar>" and "- 1022 \<le> a"
  shows "2 powi a \<le> \<bar>b64 x\<bar>"
proof (cases "0 \<le> x")
  case True
  then have "2 powi a \<le> b64 x" using assms by (intro b64_lower) simp_all
  then show ?thesis by linarith
next
  case False
  then have "2 powi a \<le> b64 (- x)" using assms by (intro b64_lower) simp_all
  then show ?thesis by (simp add: b64_neg)
qed

lemma finite64_bound:
  assumes "\<bar>y\<bar> \<le> 2 powi b" and "b \<le> 1023"
  shows "finite64 y"
proof -
  have "(2::real) powi b \<le> 2 powi 1023"
    using assms(2) by (intro power_int_increasing) simp_all
  then have "\<bar>y\<bar> \<le> 2 ^ 1023" using assms(1) by simp
  then show ?thesis unfolding finite64_def by simp
qed

lemma fl_between:
  assumes "2 powi a \<le> z" and "z \<le> 2 powi b" and "- 1022 \<le> a" and "a \<le> b" and "b \<le> 1023"
  shows "\<exists>y. fl z = Returns y \<and> 2 powi a \<le> y \<and> y \<le> 2 powi b"
proof -
  have zpos: "0 < z"
    using assms(1) zero_less_power_int [of "2::real" a] by linarith
  have lo: "2 powi a \<le> b64 z"
    using assms(1,3) by (rule b64_lower)
  have hi: "b64 z \<le> 2 powi b"
    using zpos assms(2) assms(3,4) by (intro b64_upper) simp_all
  have "0 < b64 z"
    using lo zero_less_power_int [of "2::real" a] by linarith
  then have "\<bar>b64 z\<bar> \<le> 2 powi b" using hi by simp
  then have "finite64 (b64 z)" using assms(5) by (rule finite64_bound)
  then show ?thesis unfolding fl_def using lo hi by simp
qed

lemma fl_of_int:
  assumes "\<bar>k\<bar> < 2 ^ 53"
  shows "fl (of_int k) = Returns (of_int k)"
proof -
  have "\<bar>real_of_int k\<bar> < 2 ^ 53"
    using assms by (metis of_int_abs of_int_less_iff of_int_numeral of_int_power)
  then have "finite64 (of_int k)" unfolding finite64_def by simp
  then show ?thesis unfolding fl_def b64_of_int [OF assms] by simp
qed

lemma fl_zero: "fl 0 = Returns 0"
  using fl_of_int [of 0] by simp

lemma float_of_small_int:
  assumes "\<bar>k\<bar> < 2 ^ 53"
  shows "float_of_int k = Returns (of_int k)"
proof -
  have "\<bar>real_of_int k\<bar> < 2 ^ 53"
    using assms by (metis of_int_abs of_int_less_iff of_int_numeral of_int_power)
  then have "finite64 (of_int k)" unfolding finite64_def by simp
  then show ?thesis unfolding float_of_int_def b64_of_int [OF assms] by simp
qed

lemma math_pow_one:
  assumes "0 \<le> n" and "n < 2 ^ 53"
  shows "math_pow 1 n = Returns 1"
proof -
  have "float_of_int n = Returns (of_int n)"
    using assms by (intro float_of_small_int) simp
  moreover have "b64 1 = 1" using b64_of_int [of 1] by simp
  moreover have "finite64 1" by (simp add: finite64_def)
  ultimately show ?thesis unfolding math_pow_def then_run_def by simp
qed

text \<open>The monthly rate for an annual return of \<open>1e-15\<close> per cent.\<close>

lemma tiny_rate:
  "\<exists>q r. fdiv (b64 (1 / 10 ^ 15)) 100 = Returns q \<and> fdiv q 12 = Returns r \<and>
         0 < r \<and> r < 1 / 2 ^ 53"
proof -
  define pct :: real where "pct = b64 (1 / 10 ^ 15)"
  have p1: "2 powi (- 50) \<le> pct"
    unfolding pct_def by (rule b64_lower) simp_all
  have p2: "pct \<le> 2 powi (- 49)"
    unfolding pct_def by (rule b64_upper) simp_all
  have "2 powi (- 57) \<le> pct / 100" and "pct / 100 \<le> 2 powi (- 55)"
    using p1 p2 by simp_all
  then obtain q where q: "fl (pct / 100) = Returns q"
    and q1: "2 powi (- 57) \<le> q" and q2: "q \<le> 2 powi (- 55)"
    using fl_between [of "- 57" "pct / 100" "- 55"] by auto
  have "2 powi (- 61) \<le> q / 12" and "q / 12 \<le> 2 powi (- 58)"
    using q1 q2 by simp_all
  then obtain r where r: "fl (q / 12) = Returns r"
    and r1: "2 powi (- 61) \<le> r" and r2: "r \<le> 2 powi (- 58)"
    using fl_between [of "- 61" "q / 12" "- 58"] by auto
  have "0 < r" using r1 by simp
  moreover have "r < 1 / 2 ^ 53" using r2 by simp
  ultimately show ?thesis
    using q r unfolding pct_def fdiv_def by auto
qed

section \<open>Binary64 runs of the calculators\<close>

lemma then_run_Returns_iff:
  "then_run m f = Returns y \<longleftrightarrow> (\<exists>x. m = Returns x \<and> f x = Returns y)"
  by (cases m) (simp_all add: then_run_def)

lemma then_run_Raises_iff:
  "then_run m f = Raises e \<longleftrightarrow> m = Raises e \<or> (\<exists>x. m = Returns x \<and> f x = Raises e)"
  by (cases m) (simp_all add: then_run_def)

lemma then_run_Returns: "then_run (Returns x) f = f x"
  by (simp add: then_run_def)

lemma fl_Returns_iff: "fl z = Returns y \<longleftrightarrow> finite64 (b64 z) \<and> y = b64 z"
  by (auto simp: fl_def)

lemma fl_not_Raises: "fl z \<noteq> Raises e"
  by (simp add: fl_def)

lemma fdiv_Raises_iff: "fdiv x y = Raises e \<longleftrightarrow> y = 0 \<and> e = ZeroDivisionError"
  by (auto simp: fdiv_def fl_not_Raises)

lemma float_of_int_Raises: "float_of_int n = Raises e \<Longrightarrow> e = OverflowError"
  by (simp add: float_of_int_def split: if_splits)

lemma math_pow_Raises: "math_pow x n = Raises e \<Longrightarrow> e = OverflowError"
  by (auto simp: math_pow_def then_run_Raises_iff float_of_int_Raises split: if_splits)

lemma safe_withdrawal_rate_nonzero: "b64 (4 / 100) \<noteq> 0"
proof -
  have "2 powi (- 5) \<le> b64 (4 / 100)"
    by (rule b64_lower) simp_all
  then show ?thesis by auto
qed

text \<open>The sign of the monthly rate is the sign of the annual return.\<close>

lemma rate_nonpos:
  assumes "ret \<le> 0" and "fdiv ret 100 = Returns q" and "fdiv q 12 = Returns r"
  shows "r \<le> 0"
proof -
  have "q = b64 (ret / 100)"
    using assms(2) by (simp add: fdiv_def fl_Returns_iff)
  moreover have "ret / 100 \<le> 0" using assms(1) by simp
  ultimately have "q \<le> 0" using b64_nonpos by simp
  then have "q / 12 \<le> 0" by simp
  moreover have "r = b64 (q / 12)"
    using assms(3) by (simp add: fdiv_def fl_Returns_iff)
  ultimately show ?thesis using b64_nonpos by simp
qed

lemma sip_cancels:
  assumes q: "fdiv pct 100 = Returns q" and r: "fdiv q 12 = Returns r"
    and r0: "0 < r" and r1: "r < 1 / 2 ^ 53"
  shows "calculate_sip_projection_b64 1000 pct 1 =
     Returns
       [(''monthly_investment'', PFloat 1000),
        (''expected_annual_return_pct'', PFloat pct),
        (''years'', PInt 1),
        (''total_invested'', PFloat 12000),
        (''projected_value'', PFloat 0),
        (''projected_gain'', PFloat (- 12000))]"
proof -
  have a: "fadd 1 r = Returns 1"
    using b64_one_plus [of r] r0 r1 by (simp add: fadd_def fl_def finite64_def)
  have p: "math_pow 1 12 = Returns 1"
    by (rule math_pow_one) simp_all
  have d: "fsub 1 1 = Returns 0"
    by (simp add: fsub_def fl_zero)
  have c: "fdiv 0 r = Returns 0"
    using r0 by (simp add: fdiv_def fl_zero)
  have fv: "fmul 1000 0 = Returns 0"
    by (simp add: fmul_def fl_zero)
  have n: "float_of_int 12 = Returns 12"
    using float_of_small_int [of 12] by simp
  have ti: "fmul 1000 12 = Returns 12000"
    using fl_of_int [of 12000] by (simp add: fmul_def)
  have g: "fsub 0 12000 = Returns (- 12000)"
    using fl_of_int [of "- 12000"] by (simp add: fsub_def)
  have f1: "fround2 12000 = 12000"
    using round2_of_int [of 12000] b64_of_int [of 12000] by (simp add: fround2_def)
  have f2: "fround2 0 = 0"
    by (simp add: fround2_def round2_zero b64_zero)
  have f3: "fround2 (- 12000) = - 12000"
    using round2_of_int [of "- 12000"] b64_of_int [of "- 12000"] by (simp add: fround2_def)
  have rn: "r \<noteq> 0" using r0 by simp
  show ?thesis
    unfolding calculate_sip_projection_b64_def Let_def
    by (simp add: q r rn a p d c fv n ti g f1 f2 f3 then_run_Returns)
qed

lemma sip_tiny_rate:
  "calculate_sip_projection_b64 1000 (b64 (1 / 10 ^ 15)) 1 =
     Returns
       [(''monthly_investment'', PFloat 1000),
        (''expected_annual_return_pct'', PFloat (b64 (1 / 10 ^ 15))),
        (''years'', PInt 1),
        (''total_invested'', PFloat 12000),
        (''projected_value'', PFloat 0),
        (''projected_gain'', PFloat (- 12000))]"
proof -
  obtain q r where "fdiv (b64 (1 / 10 ^ 15)) 100 = Returns q"
    and "fdiv q 12 = Returns r" and "0 < r" and "r < 1 / 2 ^ 53"
    using tiny_rate by blast
  then show ?thesis by (rule sip_cancels)
qed

lemma fl_abs_le:
  assumes "\<bar>z\<bar> \<le> 2 powi b" and "- 1022 \<le> b" and "b \<le> 1023"
  shows "\<exists>y. fl z = Returns y \<and> \<bar>y\<bar> \<le> 2 powi b"
proof -
  have "\<bar>b64 z\<bar> \<le> 2 powi b" using assms(1,2) by (rule b64_abs_le)
  moreover from this have "finite64 (b64 z)" using assms(3) by (rule finite64_bound)
  ultimately show ?thesis unfolding fl_def by simp
qed

lemma math_pow_abs_le:
  assumes "\<bar>a\<bar> \<le> 2" and "0 \<le> n" and "n \<le> 1000"
  shows "\<exists>p. math_pow a n = Returns p \<and> \<bar>p\<bar> \<le> 2 powi n"
proof -
  have n53: "\<bar>n\<bar> < 2 ^ 53" using assms(2,3) by simp
  have f: "float_of_int n = Returns (of_int n)"
    using n53 by (rule float_of_small_int)
  have "\<bar>a\<bar> ^ nat n \<le> 2 ^ nat n"
    using assms(1) by (intro power_mono) simp_all
  then have hi: "\<bar>a ^ nat n\<bar> \<le> 2 powi n"
    using assms(2) by (simp add: power_int_nonneg_exp power_abs)
  have "\<exists>y. fl (a ^ nat n) = Returns y \<and> \<bar>y\<bar> \<le> 2 powi n"
    using hi assms(2,3) by (intro fl_abs_le) simp_all
  then show ?thesis
    unfolding math_pow_def f then_run_Returns fl_def by (auto split: if_splits)
qed

text \<open>
  Whenever the monthly rate is positive but below half a unit in the last place of 1,
  \<open>1 + r\<close> is \<open>1.0\<close>, the denominator is \<open>0.0\<close> and the guard of line 92 fires.
\<close>

lemma plan_cancels:
  assumes age: "ca < ra" and months: "(ra - ca) * 12 < 2 ^ 53"
    and "fdiv infl_pct 100 = Returns infl"
    and "fadd 1 infl = Returns a"
    and "math_pow a (ra - ca) = Returns p"
    and "fmul e p = Returns t"
    and "fmul t 12 = Returns an"
    and "fdiv an (b64 (4 / 100)) = Returns rc"
    and "fsub rc cc = Returns d"
    and "fdiv ret 100 = Returns q"
    and "fdiv q 12 = Returns r"
    and r0: "0 < r" and r1: "r < 1 / 2 ^ 53"
  shows "plan_retirement_goal_b64 ca ra e infl_pct ret cc =
     Returns
       [(''error'', PStr ''Mathematical error in SIP calculation.''),
        (''required_corpus'', PFloat (fround2 rc))]"
proof -
  have b: "fadd 1 r = Returns 1"
    using b64_one_plus [of r] r0 r1 by (simp add: fadd_def fl_def finite64_def)
  have "0 \<le> (ra - ca) * 12" using age by simp
  then have pn: "math_pow 1 ((ra - ca) * 12) = Returns 1"
    using months by (rule math_pow_one)
  have denom: "fsub 1 1 = Returns 0"
    by (simp add: fsub_def fl_zero)
  have g1: "\<not> ra - ca \<le> 0" using age by simp
  have g2: "\<not> ((ra - ca) * 12 \<le> 0 \<or> r \<le> 0)" using age r0 by simp
  show ?thesis
    unfolding plan_retirement_goal_b64_def Let_def
    by (simp only: assms(3-11) b pn denom g1 g2 then_run_Returns if_False if_True simp_thms)
qed

lemma safe_withdrawal_rate_nonzero': "b64 (1 / 25) \<noteq> 0"
  using safe_withdrawal_rate_nonzero by simp

lemma plan_raises_only_overflow:
  assumes "plan_retirement_goal_b64 ca ra e infl ret cc = Raises err"
  shows "err = OverflowError"
  using assms unfolding plan_retirement_goal_b64_def Let_def
  by (auto simp: then_run_Raises_iff fdiv_Raises_iff fadd_def fsub_def fmul_def fl_not_Raises
        safe_withdrawal_rate_nonzero'
      dest: math_pow_Raises split: if_splits)


lemma plan_returns_invalid:
  assumes "ca < ra" and "ret \<le> 0"
    and "plan_retirement_goal_b64 ca ra e infl ret cc = Returns d"
  shows "\<exists>rc. required_corpus_b64 (ra - ca) e infl = Returns rc \<and>
              d = [(''error'', PStr ''Invalid inputs for SIP calculation.''),
                   (''required_corpus'', PFloat (fround2 rc))]"
  using assms unfolding plan_retirement_goal_b64_def required_corpus_b64_def Let_def
  by (auto simp: then_run_Returns_iff split: if_splits dest: rate_nonpos)

lemma plan_overflows:
  "plan_retirement_goal_b64 30 60 50000 (10 ^ 15) 0 0 = Raises OverflowError"
proof -
  have i: "fdiv (10 ^ 15) 100 = Returns 10000000000000"
    using fl_of_int [of 10000000000000] by (simp add: fdiv_def)
  have a: "fadd 1 10000000000000 = Returns 10000000000001"
    using fl_of_int [of 10000000000001] by (simp add: fadd_def)
  have n: "float_of_int (60 - 30) = Returns 30"
    using float_of_small_int [of 30] by simp
  have "2 powi 1024 \<le> b64 (10000000000001 ^ 30)"
    by (rule b64_lower) simp_all
  then have "\<not> finite64 (b64 (10000000000001 ^ nat \<lfloor>30::real\<rfloor>))"
    by (simp add: finite64_def)
  then have p: "math_pow 10000000000001 (60 - 30) = Raises OverflowError"
    unfolding math_pow_def n then_run_Returns by simp
  show ?thesis
    unfolding plan_retirement_goal_b64_def Let_def
    by (simp only: i a p then_run_def run.case) simp
qed

section \<open>Binary64 runs inside the range\<close>

lemma powi_mono: "a \<le> b \<Longrightarrow> (2::real) powi a \<le> 2 powi b"
  by (intro power_int_increasing) simp_all

lemma abs_le_powi_mono: "\<bar>x\<bar> \<le> 2 powi a \<Longrightarrow> a \<le> b \<Longrightarrow> \<bar>x::real\<bar> \<le> 2 powi b"
  using powi_mono [of a b] by linarith

lemma abs_mult_le_powi:
  assumes "\<bar>x\<bar> \<le> 2 powi a" and "\<bar>y\<bar> \<le> 2 powi b"
  shows "\<bar>x * y :: real\<bar> \<le> 2 powi (a + b)"
proof -
  have "\<bar>x\<bar> * \<bar>y\<bar> \<le> 2 powi a * 2 powi b"
    using assms by (intro mult_mono) simp_all
  then show ?thesis by (simp add: abs_mult power_int_add)
qed

lemma abs_divide_le_powi:
  assumes "\<bar>x\<bar> \<le> 2 powi a" and "2 powi b \<le> \<bar>y\<bar>"
  shows "\<bar>x / y :: real\<bar> \<le> 2 powi (a - b)"
proof -
  have ypos: "0 < \<bar>y\<bar>"
    using assms(2) zero_less_power_int [of "2::real" b] by linarith
  have "\<bar>x\<bar> / \<bar>y\<bar> \<le> 2 powi a / 2 powi b"
    using assms ypos by (intro frac_le) simp_all
  then show ?thesis by (simp add: power_int_diff)
qed

lemma abs_diff_le_powi:
  assumes "\<bar>x\<bar> \<le> 2 powi a" and "\<bar>y\<bar> \<le> 2 powi a"
  shows "\<bar>x - y :: real\<bar> \<le> 2 powi (a + 1)"
proof -
  have "\<bar>x - y\<bar> \<le> 2 powi a + 2 powi a" using assms by linarith
  then show ?thesis by (simp add: power_int_add)
qed

text \<open>The monthly rate of an annual percentage of at most 100 in magnitude.\<close>

lemma rate_returns:
  assumes "\<bar>pct\<bar> \<le> 100"
  shows "\<exists>q r. fdiv pct 100 = Returns q \<and> fdiv q 12 = Returns r \<and> \<bar>r\<bar> \<le> 2 powi 0"
proof -
  have "\<bar>pct / 100\<bar> \<le> 2 powi 0" using assms by simp
  then obtain q where q: "fl (pct / 100) = Returns q" and q1: "\<bar>q\<bar> \<le> 2 powi 0"
    using fl_abs_le [of "pct / 100" 0] by auto
  have "\<bar>q / 12\<bar> \<le> 2 powi 0" using q1 by simp
  then obtain r where r: "fl (q / 12) = Returns r" and r1: "\<bar>r\<bar> \<le> 2 powi 0"
    using fl_abs_le [of "q / 12" 0] by auto
  show ?thesis using q r r1 by (auto simp: fdiv_def)
qed


text \<open>Inside the range the required corpus is computed without overflow.\<close>

lemma plan_corpus_returns:
  assumes "ca < ra" and "ra - ca \<le> 100" and "\<bar>e\<bar> \<le> 10 ^ 15" and "\<bar>infl_pct\<bar> \<le> 100"
    and "\<bar>cc\<bar> \<le> 10 ^ 18"
  shows "\<exists>infl a p t an rc d.
     fdiv infl_pct 100 = Returns infl \<and> fadd 1 infl = Returns a \<and>
     math_pow a (ra - ca) = Returns p \<and> fmul e p = Returns t \<and> fmul t 12 = Returns an \<and>
     fdiv an (b64 (4 / 100)) = Returns rc \<and> fsub rc cc = Returns d"
proof -
  have "\<bar>infl_pct / 100\<bar> \<le> 2 powi 0" using assms(4) by simp
  then obtain infl where i: "fl (infl_pct / 100) = Returns infl" and i1: "\<bar>infl\<bar> \<le> 2 powi 0"
    using fl_abs_le [of "infl_pct / 100" 0] by auto
  have "\<bar>1 + infl\<bar> \<le> 2 powi 1" using i1 by simp
  then obtain a where a: "fl (1 + infl) = Returns a" and a1: "\<bar>a\<bar> \<le> 2 powi 1"
    using fl_abs_le [of "1 + infl" 1] by auto
  have "\<bar>a\<bar> \<le> 2" using a1 by simp
  then obtain p where p: "math_pow a (ra - ca) = Returns p" and p0: "\<bar>p\<bar> \<le> 2 powi (ra - ca)"
    using math_pow_abs_le [of a "ra - ca"] assms(1,2) by auto
  have p1: "\<bar>p\<bar> \<le> 2 powi 100"
    using p0 assms(2) by (rule abs_le_powi_mono)
  have e1: "\<bar>e\<bar> \<le> 2 powi 50" using assms(3) by simp
  have "\<bar>e * p\<bar> \<le> 2 powi (50 + 100)"
    using e1 p1 by (rule abs_mult_le_powi)
  then obtain t where t: "fl (e * p) = Returns t" and t1: "\<bar>t\<bar> \<le> 2 powi (50 + 100)"
    using fl_abs_le [of "e * p" "50 + 100"] by auto
  have "\<bar>12::real\<bar> \<le> 2 powi 4" by simp
  with t1 have "\<bar>t * 12\<bar> \<le> 2 powi (50 + 100 + 4)"
    by (rule abs_mult_le_powi)
  then obtain an where an: "fl (t * 12) = Returns an" and an1: "\<bar>an\<bar> \<le> 2 powi (50 + 100 + 4)"
    using fl_abs_le [of "t * 12" "50 + 100 + 4"] by auto
  define s where "s = b64 (4 / 100)"
  have "2 powi (- 5) \<le> \<bar>4 / 100 :: real\<bar>" by simp
  then have s1: "2 powi (- 5) \<le> \<bar>s\<bar>"
    unfolding s_def by (rule b64_abs_ge) simp
  have sn: "s \<noteq> 0" using s1 by auto
  have "\<bar>an / s\<bar> \<le> 2 powi (50 + 100 + 4 - (- 5))"
    using an1 s1 by (rule abs_divide_le_powi)
  then have "\<bar>an / s\<bar> \<le> 2 powi 159" by simp
  then obtain rc where rc: "fl (an / s) = Returns rc" and rc1: "\<bar>rc\<bar> \<le> 2 powi 159"
    using fl_abs_le [of "an / s" 159] by auto
  have "\<bar>cc\<bar> \<le> 2 powi 159" using assms(5) by simp
  with rc1 have "\<bar>rc - cc\<bar> \<le> 2 powi (159 + 1)"
    by (rule abs_diff_le_powi)
  then obtain d where d: "fl (rc - cc) = Returns d"
    using fl_abs_le [of "rc - cc" "159 + 1"] by auto
  have "fdiv infl_pct 100 = Returns infl"
    using i by (simp add: fdiv_def)
  moreover have "fadd 1 infl = Returns a"
    using a by (simp add: fadd_def)
  moreover have "fmul e p = Returns t"
    using t by (simp add: fmul_def)
  moreover have "fmul t 12 = Returns an"
    using an by (simp add: fmul_def)
  moreover have "fdiv an (b64 (4 / 100)) = Returns rc"
    using rc sn unfolding s_def fdiv_def by simp
  moreover have "fsub rc cc = Returns d"
    using d unfolding fsub_def .
  ultimately show ?thesis using p by blast
qed

text \<open>The guard of line 83 on a run whose corpus is computed.\<close>

lemma plan_invalid_b64:
  assumes age: "ca < ra"
    and "fdiv infl_pct 100 = Returns infl"
    and "fadd 1 infl = Returns a"
    and "math_pow a (ra - ca) = Returns p"
    and "fmul e p = Returns t"
    and "fmul t 12 = Returns an"
    and "fdiv an (b64 (4 / 100)) = Returns rc"
    and "fsub rc cc = Returns d"
    and "fdiv ret 100 = Returns q"
    and "fdiv q 12 = Returns r"
    and r0: "r \<le> 0"
  shows "plan_retirement_goal_b64 ca ra e infl_pct ret cc =
     Returns
       [(''error'', PStr ''Invalid inputs for SIP calculation.''),
        (''required_corpus'', PFloat (fround2 rc))]"
proof -
  have g1: "\<not> ra - ca \<le> 0" using age by simp
  have g2: "(ra - ca) * 12 \<le> 0 \<or> r \<le> 0" using r0 by simp
  show ?thesis
    unfolding plan_retirement_goal_b64_def Let_def
    by (simp only: assms(2-10) g1 g2 then_run_Returns if_False if_True simp_thms)
qed

lemma required_corpus_prefix:
  assumes "fdiv infl_pct 100 = Returns infl"
    and "fadd 1 infl = Returns a"
    and "math_pow a years = Returns p"
    and "fmul e p = Returns t"
    and "fmul t 12 = Returns an"
    and "fdiv an (b64 (4 / 100)) = Returns rc"
  shows "required_corpus_b64 years e infl_pct = Returns rc"
  unfolding required_corpus_b64_def
  by (simp only: assms then_run_Returns)

lemma plan_invalid_in_range:
  assumes "ca < ra" and "ret \<le> 0" and "plan_float_range ca ra e infl_pct ret cc"
  shows "\<exists>rc. required_corpus_b64 (ra - ca) e infl_pct = Returns rc \<and>
     plan_retirement_goal_b64 ca ra e infl_pct ret cc =
     Returns
       [(''error'', PStr ''Invalid inputs for SIP calculation.''),
        (''required_corpus'', PFloat (fround2 rc))]"
proof -
  have rng: "ra - ca \<le> 100" "\<bar>e\<bar> \<le> 10 ^ 15" "\<bar>infl_pct\<bar> \<le> 100" "\<bar>ret\<bar> \<le> 100"
    "\<bar>cc\<bar> \<le> 10 ^ 18"
    using assms(3) unfolding plan_float_range_def by simp_all
  obtain infl a p t an rc d where pre:
    "fdiv infl_pct 100 = Returns infl" "fadd 1 infl = Returns a"
    "math_pow a (ra - ca) = Returns p" "fmul e p = Returns t" "fmul t 12 = Returns an"
    "fdiv an (b64 (4 / 100)) = Returns rc" "fsub rc cc = Returns d"
    using plan_corpus_returns [OF assms(1) rng(1,2,3,5)] by blast
  obtain q r where q: "fdiv ret 100 = Returns q" and r: "fdiv q 12 = Returns r"
    using rate_returns [OF rng(4)] by blast
  have "r \<le> 0" using assms(2) q r by (rule rate_nonpos)
  with assms(1) pre q r have "plan_retirement_goal_b64 ca ra e infl_pct ret cc =
     Returns
       [(''error'', PStr ''Invalid inputs for SIP calculation.''),
        (''required_corpus'', PFloat (fround2 rc))]"
    by (rule plan_invalid_b64)
  moreover have "required_corpus_b64 (ra - ca) e infl_pct = Returns rc"
    using pre(1-6) by (rule required_corpus_prefix)
  ultimately show ?thesis by blast
qed

text \<open>The run at \<open>(30, 60, 50000.0, 6.0, 1e-15, 0.0)\<close>.\<close>

lemma plan_tiny_rate:
  "returned_field (plan_retirement_goal_b64 30 60 50000 6 (b64 (1 / 10 ^ 15)) 0) ''error''
     = Some (PStr ''Mathematical error in SIP calculation.'')"
proof -
  have age: "(30::int) < 60" and "(60::int) - 30 \<le> 100" and "\<bar>50000::real\<bar> \<le> 10 ^ 15"
    and "\<bar>6::real\<bar> \<le> 100" and "\<bar>0::real\<bar> \<le> 10 ^ 18"
    by simp_all
  then obtain infl a p t an rc d where
    "fdiv 6 100 = Returns infl" "fadd 1 infl = Returns a" "math_pow a (60 - 30) = Returns p"
    "fmul 50000 p = Returns t" "fmul t 12 = Returns an"
    "fdiv an (b64 (4 / 100)) = Returns rc" "fsub rc 0 = Returns d"
    using plan_corpus_returns [of 30 60 50000 6 0] by blast
  moreover obtain q r where "fdiv (b64 (1 / 10 ^ 15)) 100 = Returns q"
    and "fdiv q 12 = Returns r" and "0 < r" and "r < 1 / 2 ^ 53"
    using tiny_rate by blast
  moreover have "(60 - 30) * 12 < (2::int) ^ 53"
    by simp
  ultimately have "plan_retirement_goal_b64 30 60 50000 6 (b64 (1 / 10 ^ 15)) 0 =
     Returns
       [(''error'', PStr ''Mathematical error in SIP calculation.''),
        (''required_corpus'', PFloat (fround2 rc))]"
    using age by (intro plan_cancels)
  then show ?thesis by (simp add: returned_field_def)
qed





lemma plan_invalid_only_by_rate:
  assumes "ca < ra"
    and "plan_retirement_goal_b64 ca ra e infl ret cc = Returns d"
    and "map_of d ''error'' = Some (PStr ''Invalid inputs for SIP calculation.'')"
  shows "\<exists>q r. fdiv ret 100 = Returns q \<and> fdiv q 12 = Returns r \<and> r \<le> 0"
  using assms unfolding plan_retirement_goal_b64_def Let_def
  by (auto simp: then_run_Returns_iff split: if_splits)

section \<open>The SIP projection\<close>




section \<open>The shape of a calculator result\<close>

text \<open>
  C4, as amended. Every result of \<open>calculate_sip_projection\<close> is either fully successful
  (all derived fields, no error field) or carries exactly one error field and no derived
  field. Every result of \<open>plan_retirement_goal\<close> is either fully successful, or carries
  exactly one error field and no derived field, or is an error of the SIP calculation,
  whose fields are exactly \<open>error\<close> and the already computed \<open>required_corpus\<close>.
\<close>

theorem result_shapes:
  "(fully_successful sip_derived (calculate_sip_projection m pct years) \<or>
    error_only sip_derived (calculate_sip_projection m pct years)) \<and>
   (fully_successful plan_derived (plan_retirement_goal ca ra e infl ret cc) \<or>
    error_only plan_derived (plan_retirement_goal ca ra e infl ret cc) \<or>
    keys (plan_retirement_goal ca ra e infl ret cc) = [''error'', ''required_corpus''])"
proof
  show "fully_successful sip_derived (calculate_sip_projection m pct years) \<or>
    error_only sip_derived (calculate_sip_projection m pct years)"
  proof (cases "1 \<le> years")
    case True
    show ?thesis
      unfolding sip_success [OF True]
      by (simp add: fully_successful_def sip_derived_def keys_def)
  next
    case False
    then have "calculate_sip_projection m pct years = [(''error'', PStr ''Years must be > 0'')]"
      by (simp add: calculate_sip_projection_def)
    then show ?thesis
      by (simp add: error_only_def sip_derived_def keys_def)
  qed
next
  let ?p = "plan_retirement_goal ca ra e infl ret cc"
  show "fully_successful plan_derived ?p \<or> error_only plan_derived ?p \<or>
    keys ?p = [''error'', ''required_corpus'']"
  proof (cases "ca < ra")
    case False
    then have "?p = [(''error'', PStr ''Retirement age must be greater than current age.'')]"
      using plan_not_after [of ra ca e infl ret cc] by simp
    then show ?thesis
      by (simp add: error_only_def plan_derived_def keys_def)
  next
    case True
    show ?thesis
    proof (cases "0 < ret")
      case False
      then have "ret \<le> 0" by simp
      from plan_invalid [OF True this, of e infl cc] show ?thesis
        by (simp add: keys_def)
    next
      case pos: True
      show ?thesis
        unfolding plan_success [OF True pos]
        by (simp add: fully_successful_def plan_derived_def keys_def)
    qed
  qed
qed

theorem plan_error_with_corpus_counterexample:
  "\<not> (fully_successful plan_derived (plan_retirement_goal 30 60 50000 6 0 0) \<or>
      error_only plan_derived (plan_retirement_goal 30 60 50000 6 0 0))"
proof -
  have "plan_retirement_goal 30 60 50000 6 0 0 =
     [(''error'', PStr ''Invalid inputs for SIP calculation.''),
      (''required_corpus'', PFloat (round2 (spec_required_corpus 50000 6 (nat (60 - 30)))))]"
    by (rule plan_invalid) simp_all
  then show ?thesis
    by (simp add: fully_successful_def error_only_def plan_derived_def keys_def)
qed

section \<open>Rounding of the output fields\<close>

text \<open>
  C5, as amended. In every result the computed money fields (\<open>total_invested\<close>,
  \<open>projected_value\<close>, \<open>projected_gain\<close>; \<open>target_monthly_at_retirement\<close>,
  \<open>required_corpus\<close>, \<open>required_monthly_sip\<close>) and, in \<open>plan_retirement_goal\<close>, the
  echoed \<open>monthly_expense_today\<close> and \<open>current_corpus\<close> have two decimals. The
  percentages \<open>expected_annual_return_pct\<close>, \<open>inflation_pct\<close> and
  \<open>expected_return_pct_during_accumulation\<close> are echoed as given, not rounded. The
  intermediate values are not rounded: the gain and the monthly SIP shown are within
  0.005 of the exact formula on the unrounded intermediates.
\<close>

theorem rounded_outputs:
  "rounded_fields [''total_invested'', ''projected_value'', ''projected_gain'']
     (calculate_sip_projection m pct years) \<and>
   rounded_fields [''monthly_expense_today'', ''current_corpus'',
       ''target_monthly_at_retirement'', ''required_corpus'', ''required_monthly_sip'']
     (plan_retirement_goal ca ra e infl ret cc) \<and>
   (1 \<le> years \<longrightarrow>
      dict_get (calculate_sip_projection m pct years) ''expected_annual_return_pct''
        = Some (PFloat pct) \<and>
      (\<exists>g. num_field (calculate_sip_projection m pct years) ''projected_gain'' = Some g \<and>
           \<bar>g - (spec_future_value m (pct / 100 / 12) (nat (years * 12))
                   - m * real (nat (years * 12)))\<bar> \<le> 1 / 200)) \<and>
   (''error'' \<notin> set (keys (plan_retirement_goal ca ra e infl ret cc)) \<longrightarrow>
      dict_get (plan_retirement_goal ca ra e infl ret cc) ''inflation_pct'' = Some (PFloat infl) \<and>
      dict_get (plan_retirement_goal ca ra e infl ret cc)
          ''expected_return_pct_during_accumulation'' = Some (PFloat ret) \<and>
      (\<exists>s. num_field (plan_retirement_goal ca ra e infl ret cc) ''required_monthly_sip'' = Some s \<and>
           \<bar>s - spec_required_sip
                  (max (spec_required_corpus e infl (nat (ra - ca)) - cc) 0)
                  (ret / 100 / 12) (nat ((ra - ca) * 12))\<bar> \<le> 1 / 200))"
proof (intro conjI impI)
  show "rounded_fields [''total_invested'', ''projected_value'', ''projected_gain'']
     (calculate_sip_projection m pct years)"
  proof (cases "1 \<le> years")
    case True
    show ?thesis
      unfolding sip_success [OF True] by (simp add: rounded_fields_def is_2dp_round2)
  next
    case False
    then show ?thesis
      by (simp add: calculate_sip_projection_def rounded_fields_def)
  qed
next
  let ?p = "plan_retirement_goal ca ra e infl ret cc"
  show "rounded_fields [''monthly_expense_today'', ''current_corpus'',
       ''target_monthly_at_retirement'', ''required_corpus'', ''required_monthly_sip''] ?p"
  proof (cases "ca < ra")
    case False
    then show ?thesis
      using plan_not_after [of ra ca e infl ret cc] by (simp add: rounded_fields_def)
  next
    case True
    show ?thesis
    proof (cases "0 < ret")
      case False
      then have "ret \<le> 0" by simp
      from plan_invalid [OF True this, of e infl cc] show ?thesis
        by (simp add: rounded_fields_def is_2dp_round2)
    next
      case pos: True
      show ?thesis
        unfolding plan_success [OF True pos] by (simp add: rounded_fields_def is_2dp_round2)
    qed
  qed
next
  assume y: "1 \<le> years"
  note s = sip_success [OF y, of m pct]
  show "dict_get (calculate_sip_projection m pct years) ''expected_annual_return_pct''
        = Some (PFloat pct)"
    unfolding s by (simp add: dict_get_def)
  show "\<exists>g. num_field (calculate_sip_projection m pct years) ''projected_gain'' = Some g \<and>
           \<bar>g - (spec_future_value m (pct / 100 / 12) (nat (years * 12))
                   - m * real (nat (years * 12)))\<bar> \<le> 1 / 200"
    unfolding s
    using round2_close [of "spec_future_value m (pct / 100 / 12) (nat (years * 12))
                   - m * real (nat (years * 12))"]
    by (simp add: num_field_def)
next
  assume "''error'' \<notin> set (keys (plan_retirement_goal ca ra e infl ret cc))"
  then have ok: "ca < ra" "0 < ret"
    by (simp_all add: plan_no_error_iff)
  note s = plan_success [OF ok, of e infl cc]
  show "dict_get (plan_retirement_goal ca ra e infl ret cc) ''inflation_pct'' = Some (PFloat infl)"
    unfolding s by (simp add: dict_get_def)
  show "dict_get (plan_retirement_goal ca ra e infl ret cc)
          ''expected_return_pct_during_accumulation'' = Some (PFloat ret)"
    unfolding s by (simp add: dict_get_def)
  show "\<exists>s. num_field (plan_retirement_goal ca ra e infl ret cc) ''required_monthly_sip'' = Some s \<and>
           \<bar>s - spec_required_sip
                  (max (spec_required_corpus e infl (nat (ra - ca)) - cc) 0)
                  (ret / 100 / 12) (nat ((ra - ca) * 12))\<bar> \<le> 1 / 200"
    unfolding s
    using round2_close [of "spec_required_sip
                  (max (spec_required_corpus e infl (nat (ra - ca)) - cc) 0)
                  (ret / 100 / 12) (nat ((ra - ca) * 12))"]
    by (simp add: num_field_def)
qed

theorem rounded_outputs_witness:
  "(1::int) \<le> 1 \<and>
   ''error'' \<notin> set (keys (plan_retirement_goal 30 31 1000 (1 / 1000) 12 0)) \<and>
   dict_get (calculate_sip_projection 1000 0 1) ''expected_annual_return_pct''
     = Some (PFloat 0) \<and>
   dict_get (plan_retirement_goal 30 31 1000 (1 / 1000) 12 0) ''inflation_pct''
     = Some (PFloat (1 / 1000))"
proof -
  have ok: "''error'' \<notin> set (keys (plan_retirement_goal 30 31 1000 (1 / 1000) 12 0))"
    by (simp add: plan_no_error_iff)
  show ?thesis
    using ok rounded_outputs [where years = 1 and m = 1000 and pct = 0 and ca = 30
        and ra = 31 and e = 1000 and infl = "1 / 1000" and ret = 12 and cc = 0]
    by simp
qed

theorem echoed_input_counterexample:
  "dict_get (plan_retirement_goal 30 31 1000 (1 / 1000) 12 0) ''inflation_pct''
     = Some (PFloat (1 / 1000)) \<and>
   \<not> is_2dp (1 / 1000)"
proof
  have "(30::int) < 31" and "(0::real) < 12" by simp_all
  from plan_success [OF this, of 1000 "1 / 1000" 0]
  show "dict_get (plan_retirement_goal 30 31 1000 (1 / 1000) 12 0) ''inflation_pct''
     = Some (PFloat (1 / 1000))"
    by (simp add: dict_get_def)
  show "\<not> is_2dp (1 / 1000)"
    by (simp add: is_2dp_def)
qed

section \<open>A non-positive accumulation return\<close>

text \<open>
  C6, as amended. For every input of \<open>plan_retirement_goal\<close> with
  \<open>retirement_age > current_age\<close> and an expected accumulation return \<open>\<le> 0\<close>: inside
  the range \<open>plan_float_range\<close> the binary64 run returns the error
  \<open>Invalid inputs for SIP calculation.\<close> together with the already computed
  \<open>required_corpus\<close>, rounded to two decimals; on every such input a run that returns
  returns that result, and a run that raises raises \<open>OverflowError\<close>. The corpus is
  computed before the rate is looked at, so \<open>pow(1 + infl, years)\<close> overflows first at
  \<open>(30, 60, 50000, 1e15, 0)\<close>, where nothing is returned.
\<close>

theorem plan_non_positive_return:
  "current_age < retirement_age \<Longrightarrow> ret \<le> 0 \<Longrightarrow>
   (plan_float_range current_age retirement_age expense infl ret corpus \<longrightarrow>
      (\<exists>rc. required_corpus_b64 (retirement_age - current_age) expense infl = Returns rc \<and>
            plan_retirement_goal_b64 current_age retirement_age expense infl ret corpus =
              Returns [(''error'', PStr ''Invalid inputs for SIP calculation.''),
                       (''required_corpus'', PFloat (fround2 rc))])) \<and>
   (\<forall>d. plan_retirement_goal_b64 current_age retirement_age expense infl ret corpus = Returns d
        \<longrightarrow> (\<exists>rc. required_corpus_b64 (retirement_age - current_age) expense infl
                        = Returns rc \<and>
                   d = [(''error'', PStr ''Invalid inputs for SIP calculation.''),
                        (''required_corpus'', PFloat (fround2 rc))])) \<and>
   (\<forall>err. plan_retirement_goal_b64 current_age retirement_age expense infl ret corpus
            = Raises err \<longrightarrow> err = OverflowError)"
  using plan_invalid_in_range plan_returns_invalid plan_raises_only_overflow by blast

theorem plan_non_positive_return_witness:
  "(30::int) < 60 \<and> (0::real) \<le> 0 \<and> plan_float_range 30 60 50000 6 0 0 \<and>
   (\<exists>rc. required_corpus_b64 (60 - 30) 50000 6 = Returns rc \<and>
         plan_retirement_goal_b64 30 60 50000 6 0 0 =
           Returns [(''error'', PStr ''Invalid inputs for SIP calculation.''),
                    (''required_corpus'', PFloat (fround2 rc))])"
proof -
  have a: "(30::int) < 60" and b: "(0::real) \<le> 0" by simp_all
  have r: "plan_float_range 30 60 50000 6 0 0"
    by (simp add: plan_float_range_def)
  from plan_non_positive_return [OF a b, of 50000 6 0] r
  have "\<exists>rc. required_corpus_b64 (60 - 30) 50000 6 = Returns rc \<and>
         plan_retirement_goal_b64 30 60 50000 6 0 0 =
           Returns [(''error'', PStr ''Invalid inputs for SIP calculation.''),
                    (''required_corpus'', PFloat (fround2 rc))]"
    by blast
  then show ?thesis using a b r by blast
qed

theorem plan_overflow_counterexample:
  "plan_retirement_goal_b64 30 60 50000 (10 ^ 15) 0 0 = Raises OverflowError"
  by (rule plan_overflows)

section \<open>The goal amount is never negative\<close>

text \<open>
  C7. Whenever \<open>plan_retirement_goal\<close> succeeds, the amount fed into the reversed annuity
  formula is \<open>max (required_corpus - current_corpus) 0\<close>, so \<open>required_monthly_sip\<close> is
  never negative, and it is 0 when the current corpus already covers the required one.
\<close>

theorem plan_goal_amount_never_negative:
  "''error'' \<notin> set (keys (plan_retirement_goal ca ra e infl ret cc)) \<Longrightarrow>
   num_field (plan_retirement_goal ca ra e infl ret cc) ''required_monthly_sip''
     = Some (round2 (spec_required_sip
         (max (spec_required_corpus e infl (nat (ra - ca)) - cc) 0)
         (ret / 100 / 12) (nat ((ra - ca) * 12)))) \<and>
   0 \<le> spec_required_sip (max (spec_required_corpus e infl (nat (ra - ca)) - cc) 0)
         (ret / 100 / 12) (nat ((ra - ca) * 12)) \<and>
   (\<exists>s. num_field (plan_retirement_goal ca ra e infl ret cc) ''required_monthly_sip'' = Some s
        \<and> 0 \<le> s) \<and>
   (spec_required_corpus e infl (nat (ra - ca)) \<le> cc \<longrightarrow>
      num_field (plan_retirement_goal ca ra e infl ret cc) ''required_monthly_sip'' = Some 0)"
proof -
  assume "''error'' \<notin> set (keys (plan_retirement_goal ca ra e infl ret cc))"
  then have ok: "ca < ra" "0 < ret"
    by (simp_all add: plan_no_error_iff)
  let ?g = "max (spec_required_corpus e infl (nat (ra - ca)) - cc) 0"
  let ?s = "spec_required_sip ?g (ret / 100 / 12) (nat ((ra - ca) * 12))"
  note s = plan_success [OF ok, of e infl cc]
  have f: "num_field (plan_retirement_goal ca ra e infl ret cc) ''required_monthly_sip''
     = Some (round2 ?s)"
    unfolding s by (simp add: num_field_def)
  have r: "0 < ret / 100 / 12" using ok(2) by simp
  have n: "0 < nat ((ra - ca) * 12)" using ok(1) by simp
  have "0 \<le> ?g" by simp
  then have nonneg: "0 \<le> ?s"
    using r n by (rule spec_required_sip_nonneg)
  have zero: "num_field (plan_retirement_goal ca ra e infl ret cc) ''required_monthly_sip'' = Some 0"
    if "spec_required_corpus e infl (nat (ra - ca)) \<le> cc"
  proof -
    from that have "?g = 0" by simp
    then have "?s = 0" by (simp add: spec_required_sip_def)
    then show ?thesis using f by (simp add: round2_zero)
  qed
  show ?thesis
    using f nonneg round2_nonneg [OF nonneg] zero by blast
qed

theorem plan_goal_amount_never_negative_witness:
  "''error'' \<notin> set (keys (plan_retirement_goal 30 31 1000 0 12 300000)) \<and>
   spec_required_corpus 1000 0 (nat (31 - 30)) \<le> 300000 \<and>
   num_field (plan_retirement_goal 30 31 1000 0 12 300000) ''required_monthly_sip'' = Some 0"
proof -
  have ok: "''error'' \<notin> set (keys (plan_retirement_goal 30 31 1000 0 12 300000))"
    by (simp add: plan_no_error_iff)
  have c: "spec_required_corpus 1000 0 (nat (31 - 30)) \<le> 300000"
    by (simp add: spec_required_corpus_def spec_target_monthly_def)
  show ?thesis
    using ok c plan_goal_amount_never_negative [OF ok] by blast
qed

section \<open>The projected gain\<close>

text \<open>
  In exact arithmetic the future value is at least the amount invested whenever the
  investment and the rate are not negative.
\<close>

lemma exact_gain_non_negative:
  assumes "0 \<le> m" and "0 \<le> pct"
  shows "m * real n \<le> spec_future_value m (pct / 100 / 12) n"
  using assms by (intro spec_future_value_ge) simp_all

text \<open>
  C8. The binary64 run does not keep that order. At \<open>(1000.0, 1e-15, 1)\<close> the monthly
  rate is positive and \<open>1 + r\<close> is \<open>1.0\<close>, so \<open>pow(1 + r, n) - 1\<close> is \<open>0.0\<close> and the run
  returns \<open>projected_value = 0.0\<close> below \<open>total_invested = 12000.0\<close>, a gain of
  \<open>-12000.0\<close>. \<open>calculate_sip_projection\<close> tests only \<open>r == 0\<close>; \<open>plan_retirement_goal\<close>
  guards the same cancellation with \<open>denom == 0\<close> (line 92).
\<close>

theorem sip_tiny_rate_negative_gain:
  "calculate_sip_projection_b64 1000 (b64 (1 / 10 ^ 15)) 1 =
     Returns
       [(''monthly_investment'', PFloat 1000),
        (''expected_annual_return_pct'', PFloat (b64 (1 / 10 ^ 15))),
        (''years'', PInt 1),
        (''total_invested'', PFloat 12000),
        (''projected_value'', PFloat 0),
        (''projected_gain'', PFloat (- 12000))]"
  by (rule sip_tiny_rate)

section \<open>The denominator of the reversed annuity\<close>

text \<open>
  C10, as amended. In \<open>plan_retirement_goal\<close>, when \<open>retirement_age > current_age\<close> the
  month count \<open>n = years_to_retirement * 12\<close> is strictly positive, so a run returns
  \<open>Invalid inputs for SIP calculation.\<close> only when its monthly rate is \<open>\<le> 0\<close>; for
  every monthly rate \<open>r > 0\<close> the denominator \<open>(1 + r)^n - 1\<close> is strictly positive in
  exact arithmetic; and no binary64 run raises \<open>ZeroDivisionError\<close>: one that raises
  raises \<open>OverflowError\<close>. The branch \<open>Mathematical error in SIP calculation.\<close> is not
  unreachable: in binary64 the denominator is \<open>0.0\<close> for a positive rate so small that
  \<open>1 + r\<close> is \<open>1.0\<close>, as at \<open>(30, 60, 50000.0, 6.0, 1e-15)\<close>, and the guard of line 92 is
  what keeps the division defined there.
\<close>

theorem plan_month_count_and_denominator:
  "current_age < retirement_age \<Longrightarrow>
   0 < (retirement_age - current_age) * 12 \<and>
   (\<forall>r>0. 0 < (1 + r) ^ nat ((retirement_age - current_age) * 12) - (1::real)) \<and>
   (\<forall>d. plan_retirement_goal_b64 current_age retirement_age expense infl ret corpus = Returns d \<and>
        map_of d ''error'' = Some (PStr ''Invalid inputs for SIP calculation.'') \<longrightarrow>
        (\<exists>q r. fdiv ret 100 = Returns q \<and> fdiv q 12 = Returns r \<and> r \<le> 0)) \<and>
   (\<forall>err. plan_retirement_goal_b64 current_age retirement_age expense infl ret corpus
            = Raises err \<longrightarrow> err = OverflowError)"
proof (intro conjI allI impI)
  assume a: "current_age < retirement_age"
  then show "0 < (retirement_age - current_age) * 12" by simp
  show "0 < (1 + r) ^ nat ((retirement_age - current_age) * 12) - (1::real)" if "0 < r" for r
    using that a by (intro pow_minus_one_pos) simp_all
  show "\<exists>q r. fdiv ret 100 = Returns q \<and> fdiv q 12 = Returns r \<and> r \<le> 0"
    if "plan_retirement_goal_b64 current_age retirement_age expense infl ret corpus = Returns d \<and>
        map_of d ''error'' = Some (PStr ''Invalid inputs for SIP calculation.'')" for d
    using a that plan_invalid_only_by_rate by blast
  show "err = OverflowError"
    if "plan_retirement_goal_b64 current_age retirement_age expense infl ret corpus = Raises err"
    for err
    using that by (rule plan_raises_only_overflow)
qed

theorem plan_month_count_and_denominator_witness:
  "(30::int) < 60 \<and> 0 < (60 - 30) * (12::int) \<and>
   (0::real) < (1 + 1 / 100) ^ nat ((60 - 30) * 12) - 1 \<and>
   (\<exists>rc. plan_retirement_goal_b64 30 60 50000 6 0 0 =
           Returns [(''error'', PStr ''Invalid inputs for SIP calculation.''),
                    (''required_corpus'', PFloat (fround2 rc))]) \<and>
   (\<exists>q r. fdiv 0 100 = Returns q \<and> fdiv q 12 = Returns r \<and> r \<le> 0)"
proof -
  have a: "(30::int) < 60" by simp
  have b: "(0::real) \<le> 0" by simp
  have rng: "plan_float_range 30 60 50000 6 0 0"
    by (simp add: plan_float_range_def)
  obtain rc where e: "plan_retirement_goal_b64 30 60 50000 6 0 0 =
           Returns [(''error'', PStr ''Invalid inputs for SIP calculation.''),
                    (''required_corpus'', PFloat (fround2 rc))]"
    using plan_invalid_in_range [OF a b rng] by blast
  have m: "map_of [(''error'', PStr ''Invalid inputs for SIP calculation.''),
                   (''required_corpus'', PFloat (fround2 rc))] ''error''
             = Some (PStr ''Invalid inputs for SIP calculation.'')"
    by simp
  from plan_month_count_and_denominator [OF a, of 50000 6 0 0]
  have 1: "0 < (60 - 30) * (12::int)"
    and 2: "\<forall>r>0. 0 < (1 + r) ^ nat ((60 - 30) * 12) - (1::real)"
    and 3: "\<forall>d. plan_retirement_goal_b64 30 60 50000 6 0 0 = Returns d \<and>
        map_of d ''error'' = Some (PStr ''Invalid inputs for SIP calculation.'') \<longrightarrow>
        (\<exists>q r. fdiv 0 100 = Returns q \<and> fdiv q 12 = Returns r \<and> r \<le> 0)"
    by blast+
  from 2 have 4: "(0::real) < (1 + 1 / 100) ^ nat ((60 - 30) * 12) - 1"
    by (rule allE [where x = "1 / 100"]) simp
  from 3 e m have 5: "\<exists>q r. fdiv 0 100 = Returns q \<and> fdiv q 12 = Returns r \<and> r \<le> 0"
    by blast
  show ?thesis using a 1 4 e 5 by blast
qed

theorem plan_math_error_counterexample:
  "returned_field (plan_retirement_goal_b64 30 60 50000 6 (b64 (1 / 10 ^ 15)) 0) ''error''
     = Some (PStr ''Mathematical error in SIP calculation.'')"
  by (rule plan_tiny_rate)

section \<open>Results for an input with a non-positive number of years\<close>

text \<open>
  C9. Whatever the monthly investment and the annual return are,
  \<open>calculate_sip_projection\<close> called with \<open>years \<le> 0\<close> returns exactly the dictionary
  \<open>{"error": "Years must be > 0"}\<close>; the function is total, so nothing is raised.
\<close>

theorem sip_years_not_positive:
  "years \<le> 0 \<Longrightarrow>
   calculate_sip_projection monthly_investment expected_annual_return_pct years
     = [(''error'', PStr ''Years must be > 0'')]"
  by (simp add: calculate_sip_projection_def)

theorem sip_years_not_positive_witness:
  "(0::int) \<le> 0 \<and>
   calculate_sip_projection 1000 12 0 = [(''error'', PStr ''Years must be > 0'')]"
  using sip_years_not_positive [of 0 1000 12] by simp

section \<open>The dispatcher's outputs\<close>

lemma invoke_loop_append:
  "invoke_loop rt items acc = acc @ invoke_loop rt items []"
proof (induction items arbitrary: acc)
  case Nil
  show ?case by simp
next
  case (Cons item rest)
  show ?case
    using Cons.IH [of "acc @ [\<lparr>fco_type = ''function_call_output'',
                fco_call_id = item_call_id item,
                fco_output = json_dumps rt (tool_output_of rt item)\<rparr>]"]
      Cons.IH [of "[\<lparr>fco_type = ''function_call_output'',
                fco_call_id = item_call_id item,
                fco_output = json_dumps rt (tool_output_of rt item)\<rparr>]"]
      Cons.IH [of acc]
    by simp
qed

lemma invoke_loop_map:
  "invoke_loop rt items [] =
     map (\<lambda>item. \<lparr>fco_type = ''function_call_output'',
                fco_call_id = item_call_id item,
                fco_output = json_dumps rt (tool_output_of rt item)\<rparr>)
       (filter (\<lambda>item. item_type item = ''function_call'') items)"
proof (induction items)
  case Nil
  show ?case by simp
next
  case (Cons item rest)
  show ?case
    using Cons.IH invoke_loop_append [of rt rest "[\<lparr>fco_type = ''function_call_output'',
                fco_call_id = item_call_id item,
                fco_output = json_dumps rt (tool_output_of rt item)\<rparr>]"]
    by simp
qed

lemma invoke_as_map:
  "invoke_tools_from_response rt response =
     map (\<lambda>item. \<lparr>fco_type = ''function_call_output'',
                fco_call_id = item_call_id item,
                fco_output = json_dumps rt (tool_output_of rt item)\<rparr>)
       (tool_requests response)"
  unfolding invoke_tools_from_response_def tool_requests_def by (rule invoke_loop_map)

lemma invoke_empty_iff:
  "invoke_tools_from_response rt response = [] \<longleftrightarrow> tool_requests response = []"
  by (simp add: invoke_as_map)

lemma tool_output_unknown:
  assumes "map_of TOOL_MAPPING (item_name item) = None"
  shows "tool_output_of rt item =
     [(''error'', PStr (''No local implementation for tool '' @ quoted (item_name item)))]"
  using assms unfolding tool_output_of_def Let_def by simp

lemma tool_output_raised:
  assumes "map_of TOOL_MAPPING (item_name item) = Some t"
    and "run_tool rt t (item_arguments item) = Inl e"
  shows "tool_output_of rt item =
     [(''error'', PStr (''Exception while running tool '' @ quoted (item_name item) @ '': '' @
                       exc_str rt e))]"
  using assms unfolding tool_output_of_def Let_def by simp

lemma run_tool_parse_failure:
  assumes "arguments \<noteq> []" and "json_loads rt arguments = Inl e"
  shows "run_tool rt t arguments = Inl e"
  using assms unfolding run_tool_def by simp

text \<open>
  Whenever \<open>json.dumps\<close> returns: for a response whose output holds \<open>k\<close> function-call
  items, \<open>invoke_tools_from_response\<close> returns exactly \<open>k\<close> outputs, in the order of the
  requests, each with the call identifier of its request and the printed output of that
  request. An unknown tool name, an argument payload that does not parse and a
  calculator call that raises inside the \<open>try\<close> each give an output whose only field is
  \<open>error\<close>. The call of \<open>json.dumps\<close> (line 238) stands after the \<open>try\<close>: a
  \<open>ValueError\<close> it raises leaves \<open>invoke_tools_from_response\<close>, and that run is not
  described here.
\<close>

lemma dispatch_order_and_call_ids:
  "length (invoke_tools_from_response rt response) = length (tool_requests response) \<and>
   map fco_call_id (invoke_tools_from_response rt response)
     = map item_call_id (tool_requests response) \<and>
   map fco_output (invoke_tools_from_response rt response)
     = map (\<lambda>item. json_dumps rt (tool_output_of rt item)) (tool_requests response) \<and>
   (map_of TOOL_MAPPING (item_name item) = None \<longrightarrow>
      keys (tool_output_of rt item) = [''error'']) \<and>
   (map_of TOOL_MAPPING (item_name item) = Some t \<and>
    item_arguments item \<noteq> [] \<and> json_loads rt (item_arguments item) = Inl e \<longrightarrow>
      keys (tool_output_of rt item) = [''error'']) \<and>
   (map_of TOOL_MAPPING (item_name item) = Some t \<and>
    run_tool rt t (item_arguments item) = Inl e \<longrightarrow>
      keys (tool_output_of rt item) = [''error''])"
proof (intro conjI impI)
  show "length (invoke_tools_from_response rt response) = length (tool_requests response)"
    by (simp add: invoke_as_map)
  show "map fco_call_id (invoke_tools_from_response rt response)
     = map item_call_id (tool_requests response)"
    by (simp add: invoke_as_map comp_def)
  show "map fco_output (invoke_tools_from_response rt response)
     = map (\<lambda>item. json_dumps rt (tool_output_of rt item)) (tool_requests response)"
    by (simp add: invoke_as_map comp_def)
next
  assume "map_of TOOL_MAPPING (item_name item) = None"
  then show "keys (tool_output_of rt item) = [''error'']"
    by (simp add: tool_output_unknown keys_def)
next
  assume a: "map_of TOOL_MAPPING (item_name item) = Some t \<and>
    item_arguments item \<noteq> [] \<and> json_loads rt (item_arguments item) = Inl e"
  then have "run_tool rt t (item_arguments item) = Inl e"
    by (simp add: run_tool_parse_failure)
  with a show "keys (tool_output_of rt item) = [''error'']"
    by (simp add: tool_output_raised keys_def)
next
  assume "map_of TOOL_MAPPING (item_name item) = Some t \<and>
    run_tool rt t (item_arguments item) = Inl e"
  then show "keys (tool_output_of rt item) = [''error'']"
    by (simp add: tool_output_raised keys_def)
qed

text \<open>
  An \<open>OverflowError\<close> of the calculator is raised inside the \<open>try\<close>, so it becomes an
  error output.
\<close>

lemma call_tool_overflow:
  "call_tool rt Plan_retirement_goal
     (PDict [(''current_age'', PInt 30), (''retirement_age'', PInt 60),
             (''monthly_expense_today'', PFloat 50000), (''inflation_pct'', PFloat (10 ^ 15)),
             (''expected_return_pct_during_accumulation'', PFloat 0)])
   = Inl (Arithmetic OverflowError)"
proof -
  have "call_typed rt Plan_retirement_goal
     [(''current_age'', PInt 30), (''retirement_age'', PInt 60),
      (''monthly_expense_today'', PFloat 50000), (''inflation_pct'', PFloat (10 ^ 15)),
      (''expected_return_pct_during_accumulation'', PFloat 0)]
   = of_run rt ''plan_retirement_goal''
       [(''current_age'', PInt 30), (''retirement_age'', PInt 60),
        (''monthly_expense_today'', PFloat 50000), (''inflation_pct'', PFloat (10 ^ 15)),
        (''expected_return_pct_during_accumulation'', PFloat 0)]
       (plan_retirement_goal_b64 30 60 50000 (10 ^ 15) 0 0)"
    by simp
  then have "call_typed rt Plan_retirement_goal
     [(''current_age'', PInt 30), (''retirement_age'', PInt 60),
      (''monthly_expense_today'', PFloat 50000), (''inflation_pct'', PFloat (10 ^ 15)),
      (''expected_return_pct_during_accumulation'', PFloat 0)]
   = Inl (Arithmetic OverflowError)"
    unfolding plan_overflows of_run_def by simp
  then show ?thesis
    by (simp add: call_tool_def keys_def)
qed

section \<open>The turn orchestrator returns after m + 1 round trips\<close>

lemma exchange_Suc:
  "exchange rt create req0 s0 (Suc k) =
     (resubmission (invoke_tools_from_response rt (received rt create req0 s0 k))
        (received rt create req0 s0 k),
      create (resubmission (invoke_tools_from_response rt (received rt create req0 s0 k))
                (received rt create req0 s0 k))
        (state_after rt create req0 s0 k))"
  by (simp add: received_def state_after_def Let_def split: prod.splits)

lemma sent_request_0: "sent_request rt create req0 s0 0 = req0"
  by (simp add: sent_request_def split: prod.splits)

lemma sent_request_Suc:
  "sent_request rt create req0 s0 (Suc k) =
     resubmission (invoke_tools_from_response rt (received rt create req0 s0 k))
       (received rt create req0 s0 k)"
  unfolding sent_request_def exchange_Suc by simp

lemma create_after:
  "create (sent_request rt create req0 s0 (Suc k)) (state_after rt create req0 s0 k) =
     (received rt create req0 s0 (Suc k), state_after rt create req0 s0 (Suc k))"
  unfolding sent_request_Suc
  unfolding received_def [of rt create req0 s0 "Suc k"]
    state_after_def [of rt create req0 s0 "Suc k"] exchange_Suc
  by simp

lemma sent_request_tools: "req_tools req0 = TOOLS \<Longrightarrow> req_tools (sent_request rt create req0 s0 k) = TOOLS"
  by (cases k) (simp_all add: sent_request_0 sent_request_Suc resubmission_def)

lemma sent_request_model: "req_model req0 = MODEL \<Longrightarrow> req_model (sent_request rt create req0 s0 k) = MODEL"
  by (cases k) (simp_all add: sent_request_0 sent_request_Suc resubmission_def)

lemma agent_loop_runs:
  assumes "j \<le> m"
    and "\<forall>k. j \<le> k \<and> k < m \<longrightarrow> tool_requests (received rt create req0 s0 k) \<noteq> []"
    and "tool_requests (received rt create req0 s0 m) = []"
  shows "agent_loop rt create (received rt create req0 s0 j) (state_after rt create req0 s0 j)
           (map (sent_request rt create req0 s0) [0..<Suc j])
         = Some (received rt create req0 s0 m, state_after rt create req0 s0 m,
                 map (sent_request rt create req0 s0) [0..<Suc m])"
  using assms
proof (induction "m - j" arbitrary: j)
  case 0
  then have "j = m" by simp
  then show ?case
    using "0.prems"(3) by (subst agent_loop.simps) (simp add: invoke_empty_iff)
next
  case (Suc d)
  then have lt: "j < m" by simp
  then have calls: "invoke_tools_from_response rt (received rt create req0 s0 j) \<noteq> []"
    using Suc.prems(2) by (simp add: invoke_empty_iff)
  have step: "agent_loop rt create (received rt create req0 s0 (Suc j))
           (state_after rt create req0 s0 (Suc j))
           (map (sent_request rt create req0 s0) [0..<Suc (Suc j)])
         = Some (received rt create req0 s0 m, state_after rt create req0 s0 m,
                 map (sent_request rt create req0 s0) [0..<Suc m])"
  proof (rule Suc.hyps(1))
    show "d = m - Suc j" using Suc.hyps(2) by simp
    show "Suc j \<le> m" using lt by simp
    show "\<forall>k. Suc j \<le> k \<and> k < m \<longrightarrow> tool_requests (received rt create req0 s0 k) \<noteq> []"
      using Suc.prems(2) by simp
    show "tool_requests (received rt create req0 s0 m) = []"
      by (rule Suc.prems(3))
  qed
  have next_req: "resubmission (invoke_tools_from_response rt (received rt create req0 s0 j))
       (received rt create req0 s0 j) = sent_request rt create req0 s0 (Suc j)"
    by (simp add: sent_request_Suc)
  have log: "map (sent_request rt create req0 s0) [0..<Suc j] @ [sent_request rt create req0 s0 (Suc j)]
      = map (sent_request rt create req0 s0) [0..<Suc (Suc j)]"
    by simp
  show ?case
    apply (subst agent_loop.simps)
    apply (simp only: Let_def calls if_False next_req create_after prod.case log)
    apply (rule step)
    done
qed

lemma run_agent_turn_runs:
  assumes "\<forall>k<m. tool_requests (received rt create req0 s0 k) \<noteq> []"
    and "tool_requests (received rt create req0 s0 m) = []"
    and "req0 = first_request user_input previous_response_id"
  shows "run_agent_turn rt create user_input previous_response_id s0
         = Some (received rt create req0 s0 m, state_after rt create req0 s0 m,
                 map (sent_request rt create req0 s0) [0..<Suc m])"
proof -
  have c: "create req0 s0 = (received rt create req0 s0 0, state_after rt create req0 s0 0)"
    by (simp add: received_def state_after_def split: prod.splits)
  have l: "[req0] = map (sent_request rt create req0 s0) [0..<Suc 0]"
    by (simp add: sent_request_0)
  have "agent_loop rt create (received rt create req0 s0 0) (state_after rt create req0 s0 0)
           (map (sent_request rt create req0 s0) [0..<Suc 0])
         = Some (received rt create req0 s0 m, state_after rt create req0 s0 m,
                 map (sent_request rt create req0 s0) [0..<Suc m])"
    using assms(1,2) by (intro agent_loop_runs) simp_all
  then show ?thesis
    unfolding run_agent_turn_def Let_def assms(3) [symmetric] c prod.case l .
qed

text \<open>
  C2. If the first \<open>m\<close> responses of a turn each hold a tool-invocation request and the
  next one holds none, \<open>run_agent_turn\<close> returns that last response after exactly
  \<open>m + 1\<close> round trips (one when \<open>m = 0\<close>). Every request carries the catalog
  \<open>TOOLS\<close>, and every resubmission carries the tool outputs of the latest response and
  that response's identifier as continuation identifier.
\<close>

theorem agent_turn_round_trips:
  assumes "\<forall>k<m. tool_requests
              (received rt create (first_request user_input previous_response_id) s0 k) \<noteq> []"
    and "tool_requests
              (received rt create (first_request user_input previous_response_id) s0 m) = []"
  shows "\<exists>sent.
     run_agent_turn rt create user_input previous_response_id s0
       = Some (received rt create (first_request user_input previous_response_id) s0 m,
               state_after rt create (first_request user_input previous_response_id) s0 m,
               sent) \<and>
     length sent = m + 1 \<and>
     sent ! 0 = first_request user_input previous_response_id \<and>
     (\<forall>req \<in> set sent. req_tools req = TOOLS \<and> req_model req = MODEL) \<and>
     (\<forall>k<m. req_previous_response_id (sent ! Suc k)
               = Some (resp_id
                   (received rt create (first_request user_input previous_response_id) s0 k)) \<and>
             req_input (sent ! Suc k)
               = ToolOutputs (invoke_tools_from_response rt
                   (received rt create (first_request user_input previous_response_id) s0 k)))"
proof -
  let ?req0 = "first_request user_input previous_response_id"
  let ?sent = "map (sent_request rt create ?req0 s0) [0..<Suc m]"
  have run: "run_agent_turn rt create user_input previous_response_id s0
       = Some (received rt create ?req0 s0 m, state_after rt create ?req0 s0 m, ?sent)"
    using assms by (intro run_agent_turn_runs) simp_all
  have len: "length ?sent = m + 1" by simp
  have first: "?sent ! 0 = ?req0"
    using nth_map [of 0 "[0..<Suc m]" "sent_request rt create ?req0 s0"]
    by (simp add: sent_request_0 del: upt_Suc)
  have t0: "req_tools ?req0 = TOOLS" and m0: "req_model ?req0 = MODEL"
    by (simp_all add: first_request_def)
  have cat: "\<forall>req \<in> set ?sent. req_tools req = TOOLS \<and> req_model req = MODEL"
    using sent_request_tools [OF t0] sent_request_model [OF m0] by auto
  have resub: "req_previous_response_id (?sent ! Suc k)
               = Some (resp_id (received rt create ?req0 s0 k)) \<and>
             req_input (?sent ! Suc k)
               = ToolOutputs (invoke_tools_from_response rt (received rt create ?req0 s0 k))"
    if "k < m" for k
  proof -
    have "?sent ! Suc k = sent_request rt create ?req0 s0 (Suc k)"
      using that nth_map [of "Suc k" "[0..<Suc m]" "sent_request rt create ?req0 s0"]
      by (simp del: upt_Suc)
    then show ?thesis
      by (simp add: sent_request_Suc resubmission_def)
  qed
  show ?thesis
    using run len first cat resub by blast
qed

theorem agent_turn_round_trips_witness:
  "tool_requests (received demo_runtime demo_backend (first_request ''hi'' None) 0 0) \<noteq> [] \<and>
   tool_requests (received demo_runtime demo_backend (first_request ''hi'' None) 0 (Suc 0)) = [] \<and>
   (\<exists>sent.
      run_agent_turn demo_runtime demo_backend ''hi'' None 0 = Some (demo_final, 2, sent) \<and>
      length sent = 2 \<and>
      sent ! 0 = first_request ''hi'' None \<and>
      req_tools (sent ! 1) = TOOLS \<and>
      req_previous_response_id (sent ! 1) = Some ''resp_1'')"
proof -
  let ?req0 = "first_request ''hi'' None"
  have r0: "received demo_runtime demo_backend ?req0 0 0 = demo_response"
    by (simp add: received_def demo_backend_def)
  have s0: "state_after demo_runtime demo_backend ?req0 0 0 = Suc 0"
    by (simp add: state_after_def demo_backend_def)
  have e1: "exchange demo_runtime demo_backend ?req0 0 (Suc 0) =
      (resubmission (invoke_tools_from_response demo_runtime demo_response) demo_response,
       demo_final, Suc (Suc 0))"
    unfolding exchange_Suc r0 s0 by (simp add: demo_backend_def)
  have r1: "received demo_runtime demo_backend ?req0 0 (Suc 0) = demo_final"
    unfolding received_def e1 by simp
  have s1: "state_after demo_runtime demo_backend ?req0 0 (Suc 0) = 2"
    unfolding state_after_def e1 by simp
  have h1: "tool_requests (received demo_runtime demo_backend ?req0 0 0) \<noteq> []"
    unfolding r0 by (simp add: tool_requests_def demo_response_def)
  then have h1': "\<forall>k<Suc 0. tool_requests (received demo_runtime demo_backend ?req0 0 k) \<noteq> []"
    by simp
  have h2: "tool_requests (received demo_runtime demo_backend ?req0 0 (Suc 0)) = []"
    unfolding r1 by (simp add: tool_requests_def demo_final_def)
  from agent_turn_round_trips [OF h1' h2]
  obtain sent where run: "run_agent_turn demo_runtime demo_backend ''hi'' None 0
       = Some (received demo_runtime demo_backend ?req0 0 (Suc 0),
               state_after demo_runtime demo_backend ?req0 0 (Suc 0), sent)"
    and len: "length sent = Suc 0 + 1"
    and first: "sent ! 0 = ?req0"
    and cat: "\<forall>req \<in> set sent. req_tools req = TOOLS \<and> req_model req = MODEL"
    and resub: "\<forall>k<Suc 0. req_previous_response_id (sent ! Suc k)
               = Some (resp_id (received demo_runtime demo_backend ?req0 0 k))"
    by blast
  have "sent ! 1 \<in> set sent"
    using len by simp
  then have t: "req_tools (sent ! 1) = TOOLS"
    using cat by blast
  have p: "req_previous_response_id (sent ! 1) = Some ''resp_1''"
    using resub r0 by (simp add: demo_response_def)
  show ?thesis
    using h1 h2 run len first t p unfolding r1 s1 by simp
qed

end
